theory Spec2Isabelle
  imports Main
begin

section \<open>Python strings\<close>

text \<open>
  A Python \<open>str\<close> is modelled as a \<open>string\<close>: a list of characters with code points
  below 256. The characters that cannot be written inside a literal get a name.
\<close>

abbreviation DQ :: char where "DQ \<equiv> CHR 0x22"
abbreviation SQ :: char where "SQ \<equiv> CHR 0x27"
abbreviation BSL :: char where "BSL \<equiv> CHR 0x5C"
abbreviation NL :: char where "NL \<equiv> CHR 0x0A"

text \<open>\<open>str.isspace\<close> on one character, which is also the class \<open>\s\<close> of \<open>re\<close>: the code
  points 9 to 13, 28 to 32, 0x85 and 0xA0.\<close>

definition is_space :: "char \<Rightarrow> bool" where
  "is_space c =
     (let n = (of_char c :: nat)
      in (9 \<le> n \<and> n \<le> 13) \<or> (28 \<le> n \<and> n \<le> 32) \<or> n = 133 \<or> n = 160)"

definition lstrip :: "string \<Rightarrow> string" where
  "lstrip s = dropWhile is_space s"

definition rstrip :: "string \<Rightarrow> string" where
  "rstrip s = rev (dropWhile is_space (rev s))"

definition strip :: "string \<Rightarrow> string" where
  "strip s = rstrip (lstrip s)"

text \<open>\<open>s.rstrip(",")\<close>.\<close>

definition rstrip_comma :: "string \<Rightarrow> string" where
  "rstrip_comma s = rev (dropWhile (\<lambda>c. c = CHR '','') (rev s))"

text \<open>\<open>s.isspace()\<close>: false on the empty string.\<close>

definition isspace :: "string \<Rightarrow> bool" where
  "isspace s = (s \<noteq> [] \<and> list_all is_space s)"

definition startswith :: "string \<Rightarrow> string \<Rightarrow> bool" where
  "startswith s p = (take (length p) s = p)"

definition endswith :: "string \<Rightarrow> string \<Rightarrow> bool" where
  "endswith s p = (length p \<le> length s \<and> drop (length s - length p) s = p)"

text \<open>\<open>s.replace(old, new)\<close>: every occurrence, left to right, without overlap. The
  program only calls it with a non-empty \<open>old\<close>; on an empty one the model returns \<open>s\<close>.\<close>

function str_replace :: "string \<Rightarrow> string \<Rightarrow> string \<Rightarrow> string" where
  "str_replace [] old new = []"
| "str_replace (c # cs) old new =
     (if old \<noteq> [] \<and> startswith (c # cs) old
      then new @ str_replace (drop (length old) (c # cs)) old new
      else c # str_replace cs old new)"
  by pat_completeness auto
termination
  by (relation "measure (\<lambda>(s, old, new). length s)") auto

text \<open>\<open>s.replace(old, new, 1)\<close>: the first occurrence only.\<close>

fun str_replace1 :: "string \<Rightarrow> string \<Rightarrow> string \<Rightarrow> string" where
  "str_replace1 [] old new = []"
| "str_replace1 (c # cs) old new =
     (if old \<noteq> [] \<and> startswith (c # cs) old
      then new @ drop (length old) (c # cs)
      else c # str_replace1 cs old new)"

text \<open>\<open>sub in s\<close>.\<close>

fun str_contains :: "string \<Rightarrow> string \<Rightarrow> bool" where
  "str_contains [] sub = (sub = [])"
| "str_contains (c # cs) sub = (startswith (c # cs) sub \<or> str_contains cs sub)"

text \<open>\<open>s.rindex(sub)\<close>: the highest index at which \<open>sub\<close> starts; \<open>None\<close> is the
  \<open>ValueError\<close> of a string without \<open>sub\<close>.\<close>

fun rfind_from :: "nat \<Rightarrow> string \<Rightarrow> string \<Rightarrow> nat option" where
  "rfind_from 0 s sub = (if startswith s sub then Some 0 else None)"
| "rfind_from (Suc i) s sub =
     (if startswith (drop (Suc i) s) sub then Some (Suc i) else rfind_from i s sub)"

definition rindex :: "string \<Rightarrow> string \<Rightarrow> nat option" where
  "rindex s sub =
     (if length sub \<le> length s then rfind_from (length s - length sub) s sub else None)"

text \<open>\<open>os.path.basename\<close> of \<open>posixpath\<close>: what follows the last slash.\<close>

definition basename :: "string \<Rightarrow> string" where
  "basename p = rev (takeWhile (\<lambda>c. c \<noteq> CHR ''/'') (rev p))"

section \<open>JSON values\<close>

text \<open>
  The values \<open>json.loads\<close> builds, which are also the values the fields of the domain
  objects hold: \<open>None\<close>, \<open>bool\<close>, \<open>int\<close>, \<open>float\<close>, \<open>str\<close>, \<open>list\<close> and \<open>dict\<close>. A dict is
  an association list with distinct keys, in insertion order. A float carries the
  spelling of its literal; its rounding to binary64 is not modelled.
\<close>

datatype json =
    JNull
  | JBool bool
  | JInt int
  | JFloat string
  | JString string
  | JArray "json list"
  | JObject "(string \<times> json) list"

text \<open>\<open>d.get(k)\<close> and \<open>d.get(k, default)\<close>.\<close>

definition dict_get :: "(string \<times> 'v) list \<Rightarrow> string \<Rightarrow> 'v option" where
  "dict_get d k = map_of d k"

definition dict_get_default :: "(string \<times> 'v) list \<Rightarrow> string \<Rightarrow> 'v \<Rightarrow> 'v" where
  "dict_get_default d k dflt = (case map_of d k of None \<Rightarrow> dflt | Some v \<Rightarrow> v)"

text \<open>\<open>d[k] = v\<close>: a key already present keeps its place.\<close>

fun dict_set :: "(string \<times> 'v) list \<Rightarrow> string \<Rightarrow> 'v \<Rightarrow> (string \<times> 'v) list" where
  "dict_set [] k v = [(k, v)]"
| "dict_set ((k', v') # d) k v =
     (if k' = k then (k', v) # d else (k', v') # dict_set d k v)"

section \<open>Exceptions\<close>

text \<open>The exceptions of the program, each with the text \<open>str(e)\<close> gives, but for
  \<open>JSONDecodeError\<close>, whose text no operation reads. \<open>ValueError\<close> stands for a
  \<open>ValueError\<close> that is not a \<open>JSONDecodeError\<close>: a handler for \<open>JSONDecodeError\<close> does
  not catch it.\<close>

datatype py_error =
    JSONDecodeError
  | RecursionError string
  | ValueError string
  | TypeError string
  | AttributeError string
  | DatabaseError string

fun error_text :: "py_error \<Rightarrow> string" where
  "error_text JSONDecodeError = []"
| "error_text (RecursionError m) = m"
| "error_text (ValueError m) = m"
| "error_text (TypeError m) = m"
| "error_text (AttributeError m) = m"
| "error_text (DatabaseError m) = m"

section \<open>A model of \<open>json.loads\<close>\<close>

text \<open>
  \<open>json.loads\<close> belongs to the standard library. The operations below take the decoder
  as a parameter \<open>loads\<close>, which gives the decoded value or the exception raised, and
  their general properties hold for every decoder. Besides \<open>JSONDecodeError\<close> on a text
  that is not JSON, the library's decoder raises \<open>RecursionError\<close> on a text nested
  deeper than the interpreter's recursion limit and \<open>ValueError\<close> on an integer literal
  with more digits than the interpreter's limit (4300 by default); the handlers of the
  program tell these from \<open>JSONDecodeError\<close>, and so do the operations below.

  \<open>json_loads\<close> is a model of the library's decoder, used to run the operations on
  concrete texts: the tokens of the text first, then the grammar over the tokens. It
  raises \<open>JSONDecodeError\<close> only: the two limits depend on the interpreter and are not
  part of it. An escape \<open>\uXXXX\<close> above \<open>00FF\<close> denotes a character outside the
  modelled alphabet and is rejected.
\<close>

datatype token =
    TLBrace | TRBrace | TLBrack | TRBrack | TComma | TColon
  | TStr string
  | TVal json

definition json_ws :: "char \<Rightarrow> bool" where
  "json_ws c = (c = CHR '' '' \<or> c = CHR 0x09 \<or> c = CHR 0x0A \<or> c = CHR 0x0D)"

definition is_digit :: "char \<Rightarrow> bool" where
  "is_digit c = (48 \<le> (of_char c :: nat) \<and> (of_char c :: nat) \<le> 57)"

definition nat_of_digits :: "string \<Rightarrow> nat" where
  "nat_of_digits ds = foldl (\<lambda>n c. 10 * n + (of_char c - 48)) 0 ds"

definition hex_val :: "char \<Rightarrow> nat option" where
  "hex_val c =
     (let n = (of_char c :: nat)
      in if 48 \<le> n \<and> n \<le> 57 then Some (n - 48)
         else if 65 \<le> n \<and> n \<le> 70 then Some (n - 55)
         else if 97 \<le> n \<and> n \<le> 102 then Some (n - 87)
         else None)"

definition hex4 :: "char \<Rightarrow> char \<Rightarrow> char \<Rightarrow> char \<Rightarrow> nat option" where
  "hex4 a b c d =
     (case (hex_val a, hex_val b, hex_val c, hex_val d) of
        (Some x, Some y, Some z, Some w) \<Rightarrow> Some (4096 * x + 256 * y + 16 * z + w)
      | _ \<Rightarrow> None)"

definition unescape :: "char \<Rightarrow> char option" where
  "unescape e =
     (if e = DQ then Some DQ
      else if e = BSL then Some BSL
      else if e = CHR ''/'' then Some CHR ''/''
      else if e = CHR ''b'' then Some (CHR 0x08)
      else if e = CHR ''f'' then Some (CHR 0x0C)
      else if e = CHR ''n'' then Some (CHR 0x0A)
      else if e = CHR ''r'' then Some (CHR 0x0D)
      else if e = CHR ''t'' then Some (CHR 0x09)
      else None)"

text \<open>The text after an opening quote: the string's characters and what follows the
  closing quote. A raw control character is an error (strict mode).\<close>

fun scanstring :: "string \<Rightarrow> (string \<times> string) option" where
  "scanstring [] = None"
| "scanstring (c # cs) =
     (if c = DQ then Some ([], cs)
      else if c = BSL then
        (case cs of
           [] \<Rightarrow> None
         | e # cs1 \<Rightarrow>
             if e = CHR ''u'' then
               (case cs1 of
                  h1 # h2 # h3 # h4 # cs2 \<Rightarrow>
                    (case hex4 h1 h2 h3 h4 of
                       None \<Rightarrow> None
                     | Some n \<Rightarrow>
                         if n < 256
                         then map_option (\<lambda>(s, r). (char_of n # s, r)) (scanstring cs2)
                         else None)
                | _ \<Rightarrow> None)
             else
               (case unescape e of
                  None \<Rightarrow> None
                | Some x \<Rightarrow> map_option (\<lambda>(s, r). (x # s, r)) (scanstring cs1)))
      else if (of_char c :: nat) < 32 then None
      else map_option (\<lambda>(s, r). (c # s, r)) (scanstring cs))"

text \<open>The exponent of a number, \<open>[eE][-+]?[0-9]+\<close>, or nothing.\<close>

definition exponent_part :: "string \<Rightarrow> string" where
  "exponent_part s =
     (case s of
        [] \<Rightarrow> []
      | e # t \<Rightarrow>
          if e = CHR ''e'' \<or> e = CHR ''E'' then
            (let sg = (case t of
                         [] \<Rightarrow> []
                       | g # _ \<Rightarrow> if g = CHR ''+'' \<or> g = CHR ''-'' then [g] else []);
                 ds = takeWhile is_digit (drop (length sg) t)
             in if ds = [] then [] else e # sg @ ds)
          else [])"

text \<open>The fraction of a number, \<open>\.[0-9]+\<close>, or nothing.\<close>

definition fraction_part :: "string \<Rightarrow> string" where
  "fraction_part s =
     (case s of
        [] \<Rightarrow> []
      | p # t \<Rightarrow>
          if p = CHR ''.'' \<and> takeWhile is_digit t \<noteq> [] then p # takeWhile is_digit t
          else [])"

text \<open>A number at the head of the text, \<open>-?(0|[1-9][0-9]*)\<close> with an optional fraction
  and exponent: an \<open>int\<close> when it has neither, a \<open>float\<close> otherwise.\<close>

definition scan_number :: "string \<Rightarrow> (json \<times> string) option" where
  "scan_number s =
     (let neg = startswith s ''-'';
          s1 = (if neg then drop 1 s else s)
      in case s1 of
           [] \<Rightarrow> None
         | d # ds \<Rightarrow>
             if \<not> is_digit d then None
             else
               (let ip = (if d = CHR ''0'' then [d] else d # takeWhile is_digit ds);
                    s2 = drop (length ip) s1;
                    fr = fraction_part s2;
                    s3 = drop (length fr) s2;
                    ex = exponent_part s3;
                    s4 = drop (length ex) s3
                in if fr = [] \<and> ex = []
                   then Some (JInt ((if neg then - 1 else 1) * int (nat_of_digits ip)), s4)
                   else Some (JFloat ((if neg then ''-'' else []) @ ip @ fr @ ex), s4)))"

text \<open>A value that is not a string, an array or an object.\<close>

definition scan_literal :: "string \<Rightarrow> (json \<times> string) option" where
  "scan_literal s =
     (if startswith s ''null'' then Some (JNull, drop 4 s)
      else if startswith s ''true'' then Some (JBool True, drop 4 s)
      else if startswith s ''false'' then Some (JBool False, drop 5 s)
      else if startswith s ''NaN'' then Some (JFloat ''NaN'', drop 3 s)
      else if startswith s ''Infinity'' then Some (JFloat ''Infinity'', drop 8 s)
      else if startswith s ''-Infinity'' then Some (JFloat ''-Infinity'', drop 9 s)
      else scan_number s)"

lemma scanstring_shorter: "scanstring cs = Some (s, r) \<Longrightarrow> length r \<le> length cs"
proof (induction cs arbitrary: s r rule: scanstring.induct)
  case 1
  then show ?case by simp
next
  case (2 c cs)
  then show ?case
    by (fastforce split: if_splits list.splits option.splits)
qed

lemma startswith_length: "startswith s p \<Longrightarrow> length p \<le> length s"
proof -
  assume "startswith s p"
  then have "length p = length (take (length p) s)"
    by (simp add: startswith_def)
  then show ?thesis by simp
qed

lemma drop_Cons_shorter: "drop n s = x # xs \<Longrightarrow> length xs < length s"
proof -
  assume "drop n s = x # xs"
  then have "length (drop n s) = Suc (length xs)" by simp
  then show ?thesis by simp
qed

lemma scan_number_shorter: "scan_number s = Some (v, r) \<Longrightarrow> length r < length s"
  by (auto simp: scan_number_def Let_def less_imp_diff_less dest!: drop_Cons_shorter
        split: list.splits if_splits)

lemma scan_literal_shorter: "scan_literal s = Some (v, r) \<Longrightarrow> length r < length s"
  by (auto simp: scan_literal_def dest: scan_number_shorter dest!: startswith_length
        split: if_splits)

function tokenize :: "string \<Rightarrow> token list option" where
  "tokenize [] = Some []"
| "tokenize (c # cs) =
     (if json_ws c then tokenize cs
      else if c = CHR ''{'' then map_option ((#) TLBrace) (tokenize cs)
      else if c = CHR ''}'' then map_option ((#) TRBrace) (tokenize cs)
      else if c = CHR ''['' then map_option ((#) TLBrack) (tokenize cs)
      else if c = CHR '']'' then map_option ((#) TRBrack) (tokenize cs)
      else if c = CHR '','' then map_option ((#) TComma) (tokenize cs)
      else if c = CHR '':'' then map_option ((#) TColon) (tokenize cs)
      else if c = DQ then
        (case scanstring cs of
           None \<Rightarrow> None
         | Some (s, r) \<Rightarrow> map_option ((#) (TStr s)) (tokenize r))
      else
        (case scan_literal (c # cs) of
           None \<Rightarrow> None
         | Some (v, r) \<Rightarrow> map_option ((#) (TVal v)) (tokenize r)))"
  by pat_completeness auto
termination
  by (relation "measure length")
     (auto dest: scanstring_shorter scan_literal_shorter simp: less_Suc_eq_le)

text \<open>The grammar over the tokens, by recursive descent. The first argument bounds the
  depth of the recursion; each call passes on one less, and a call that is given at least
  twice the number of tokens plus two never runs out.\<close>

fun parse_value :: "nat \<Rightarrow> token list \<Rightarrow> (json \<times> token list) option"
  and parse_elements :: "nat \<Rightarrow> json list \<Rightarrow> token list \<Rightarrow> (json \<times> token list) option"
  and parse_members ::
    "nat \<Rightarrow> (string \<times> json) list \<Rightarrow> token list \<Rightarrow> (json \<times> token list) option"
where
  "parse_value 0 ts = None"
| "parse_value (Suc n) [] = None"
| "parse_value (Suc n) (t # ts) =
     (case t of
        TVal v \<Rightarrow> Some (v, ts)
      | TStr s \<Rightarrow> Some (JString s, ts)
      | TLBrack \<Rightarrow>
          (case ts of
             TRBrack # r \<Rightarrow> Some (JArray [], r)
           | _ \<Rightarrow> parse_elements n [] ts)
      | TLBrace \<Rightarrow>
          (case ts of
             TRBrace # r \<Rightarrow> Some (JObject [], r)
           | _ \<Rightarrow> parse_members n [] ts)
      | _ \<Rightarrow> None)"
| "parse_elements 0 acc ts = None"
| "parse_elements (Suc n) acc ts =
     (case parse_value n ts of
        None \<Rightarrow> None
      | Some (v, r) \<Rightarrow>
          (case r of
             TRBrack # r' \<Rightarrow> Some (JArray (acc @ [v]), r')
           | TComma # r' \<Rightarrow> parse_elements n (acc @ [v]) r'
           | _ \<Rightarrow> None))"
| "parse_members 0 acc ts = None"
| "parse_members (Suc n) acc ts =
     (case ts of
        TStr k # TColon # r \<Rightarrow>
          (case parse_value n r of
             None \<Rightarrow> None
           | Some (v, r') \<Rightarrow>
               (case r' of
                  TRBrace # r'' \<Rightarrow> Some (JObject (dict_set acc k v), r'')
                | TComma # r'' \<Rightarrow> parse_members n (dict_set acc k v) r''
                | _ \<Rightarrow> None))
      | _ \<Rightarrow> None)"

definition parse_tokens :: "token list \<Rightarrow> json option" where
  "parse_tokens ts =
     (case parse_value (Suc (Suc (length ts + length ts))) ts of
        Some (v, []) \<Rightarrow> Some v
      | _ \<Rightarrow> None)"

definition json_loads :: "string \<Rightarrow> py_error + json" where
  "json_loads s =
     (case tokenize s of
        None \<Rightarrow> Inl JSONDecodeError
      | Some ts \<Rightarrow>
          (case parse_tokens ts of
             None \<Rightarrow> Inl JSONDecodeError
           | Some v \<Rightarrow> Inr v))"

section \<open>Cleaning and recovering the model's reply (extrator2.py)\<close>

text \<open>
  Lines 207 to 218 of \<open>analyze_with_gemini\<close>, repeated as lines 1411 to 1416 of
  \<open>try_repair_truncated_json\<close>: strip the reply, drop a leading \<open>```json\<close>, cut at the
  last fence when the text ends with one, drop every fence that is left, strip again.
  \<open>None\<close> is the \<open>ValueError\<close> of \<open>rindex\<close>.
\<close>

definition strip_fences :: "string \<Rightarrow> string option" where
  "strip_fences raw_output =
     (let c0 = strip raw_output;
          c1 = (if startswith c0 ''```json'' then str_replace1 c0 ''```json'' [] else c0)
      in if endswith c1 ''```''
         then (case rindex c1 ''```'' of
                 None \<Rightarrow> None
               | Some i \<Rightarrow> Some (strip (str_replace (take i c1) ''```'' [])))
         else Some (strip (str_replace c1 ''```'' [])))"

text \<open>\<open>re.search(r'(\{.*\})', s, re.DOTALL)\<close>: from the first opening brace to the last
  closing brace after it.\<close>

definition search_braces :: "string \<Rightarrow> string option" where
  "search_braces s =
     (let t = dropWhile (\<lambda>c. c \<noteq> CHR ''{'') s
      in if CHR ''}'' \<in> set t
         then Some (rev (dropWhile (\<lambda>c. c \<noteq> CHR ''}'') (rev t)))
         else None)"

text \<open>\<open>\s*"[^"]+"\s*:\<close> at the head of a text: what follows the colon.\<close>

definition match_key :: "string \<Rightarrow> string option" where
  "match_key s =
     (case dropWhile is_space s of
        [] \<Rightarrow> None
      | q # t \<Rightarrow>
          if q \<noteq> DQ then None
          else
            (let k = takeWhile (\<lambda>c. c \<noteq> DQ) t;
                 r = dropWhile (\<lambda>c. c \<noteq> DQ) t
             in if k = [] \<or> r = [] then None
                else (case dropWhile is_space (tl r) of
                        [] \<Rightarrow> None
                      | c # r' \<Rightarrow> if c = CHR '':'' then Some r' else None)))"

text \<open>\<open>re.search(r'(\{\s*"[^"]+"\s*:)', s)\<close>.\<close>

fun search_json_start :: "string \<Rightarrow> bool" where
  "search_json_start [] = False"
| "search_json_start (c # cs) =
     (if c = CHR ''{'' \<and> match_key cs \<noteq> None then True else search_json_start cs)"

text \<open>\<open>re.search(r',\s*"[^"]+"\s*:\s*$', s)\<close>.\<close>

fun search_last_property :: "string \<Rightarrow> bool" where
  "search_last_property [] = False"
| "search_last_property (c # cs) =
     (if c = CHR '','' \<and> (case match_key cs of None \<Rightarrow> False | Some r \<Rightarrow> list_all is_space r)
      then True
      else search_last_property cs)"

definition expected_anexo :: "string \<Rightarrow> string" where
  "expected_anexo pdf_filename = ''s3://compras-ia-np/Contratos/'' @ pdf_filename"

text \<open>Lines 247 to 250: \<open>parsed_json.get("anexo_contrato")\<close> and the assignment. \<open>None\<close>
  is the \<open>AttributeError\<close> of a value that is not a dict.\<close>

definition fix_anexo :: "string \<Rightarrow> json \<Rightarrow> json option" where
  "fix_anexo pdf_filename parsed_json =
     (case parsed_json of
        JObject d \<Rightarrow>
          if dict_get d ''anexo_contrato'' \<noteq> Some (JString (expected_anexo pdf_filename))
          then Some (JObject (dict_set d ''anexo_contrato''
                                (JString (expected_anexo pdf_filename))))
          else Some (JObject d)
      | _ \<Rightarrow> None)"

text \<open>Lines 259 to 274: the suffix at each opening brace, in order; a suffix on which
  the decoder raises, whatever the exception (the handler of line 273 is a bare
  \<open>except\<close>), or whose value has no \<open>get\<close>, is passed over.\<close>

fun scan_suffixes ::
  "(string \<Rightarrow> py_error + json) \<Rightarrow> string \<Rightarrow> string \<Rightarrow> json option" where
  "scan_suffixes loads pdf_filename [] = None"
| "scan_suffixes loads pdf_filename (c # cs) =
     (if c = CHR ''{'' then
        (case loads (c # cs) of
           Inl e \<Rightarrow> scan_suffixes loads pdf_filename cs
         | Inr parsed_json \<Rightarrow>
             (case fix_anexo pdf_filename parsed_json of
                None \<Rightarrow> scan_suffixes loads pdf_filename cs
              | Some fixed \<Rightarrow> Some fixed))
      else scan_suffixes loads pdf_filename cs)"

text \<open>Lines 292 to 297.\<close>

definition fallback_json :: "string \<Rightarrow> string \<Rightarrow> json" where
  "fallback_json cleaned_output pdf_filename =
     JObject
       [(''status_extracao'', JString ''Falha''),
        (''mensagem'',
           JString (''N'' @ [CHR 0xE3] @ ''o foi poss'' @ [CHR 0xED]
                    @ ''vel extrair dados estruturados'')),
        (''resposta_modelo'',
           JString (take 1000 cleaned_output
                    @ (if length cleaned_output > 1000 then ''...'' else []))),
        (''anexo_contrato'', JString (''s3://compras-ia-np/Contratos/'' @ pdf_filename))]"

text \<open>
  \<open>analyze_with_gemini\<close> from line 199 on: \<open>raw_output\<close> is the text of the model's
  reply (the request itself is not modelled), and the result is the first component of
  the returned triple. The handlers of lines 253 and 287 catch \<open>JSONDecodeError\<close> and
  nothing else: any other exception raised at lines 243 or 276, and the
  \<open>AttributeError\<close> of lines 247 and 280, reach the outer handler of line 300, which
  returns \<open>None\<close>.
\<close>

text \<open>Lines 257 to 298: what follows the parse of the span, when that parse did not
  return.\<close>

definition scan_then_full ::
  "(string \<Rightarrow> py_error + json) \<Rightarrow> string \<Rightarrow> string \<Rightarrow> json option" where
  "scan_then_full loads pdf_filename cleaned_output =
     (case scan_suffixes loads pdf_filename cleaned_output of
        Some fixed \<Rightarrow> Some fixed
      | None \<Rightarrow>
          (case loads cleaned_output of
             Inr parsed_json \<Rightarrow> fix_anexo pdf_filename parsed_json
           | Inl e \<Rightarrow>
               if e = JSONDecodeError
               then Some (fallback_json cleaned_output pdf_filename)
               else None))"

definition analyze_with_gemini ::
  "(string \<Rightarrow> py_error + json) \<Rightarrow> string \<Rightarrow> string \<Rightarrow> json option" where
  "analyze_with_gemini loads raw_output pdf_path =
     (let pdf_filename = basename pdf_path
      in if raw_output = [] \<or> strip raw_output = [] then None
         else
           (case strip_fences raw_output of
              None \<Rightarrow> None
            | Some cleaned_output \<Rightarrow>
                if cleaned_output = [] \<or> isspace cleaned_output then None
                else
                  (case search_braces cleaned_output of
                     None \<Rightarrow> scan_then_full loads pdf_filename cleaned_output
                   | Some json_content \<Rightarrow>
                       (case loads (strip json_content) of
                          Inr parsed_json \<Rightarrow> fix_anexo pdf_filename parsed_json
                        | Inl e \<Rightarrow>
                            if e = JSONDecodeError
                            then scan_then_full loads pdf_filename cleaned_output
                            else None))))"

text \<open>Lines 1424 and 1463: the assignment \<open>parsed_json["anexo_contrato"] = ...\<close>;
  \<open>None\<close> is the \<open>TypeError\<close> of a value that is not a dict.\<close>

definition set_anexo :: "string \<Rightarrow> json \<Rightarrow> json option" where
  "set_anexo pdf_filename parsed_json =
     (case parsed_json of
        JObject d \<Rightarrow>
          Some (JObject (dict_set d ''anexo_contrato''
                           (JString (''s3://compras-ia-np/Contratos/'' @ pdf_filename))))
      | _ \<Rightarrow> None)"

text \<open>
  \<open>DoclingGeminiApp.try_repair_truncated_json\<close>: \<open>current_pdf_path\<close> is the attribute
  of the same name, and the result \<open>None\<close> is the returned \<open>None\<close>. The handler of
  line 1426 catches \<open>JSONDecodeError\<close> only: on any other exception of the first parse
  the outer handler of line 1470 returns \<open>None\<close> and no repair is tried.
\<close>

definition try_repair_truncated_json ::
  "(string \<Rightarrow> py_error + json) \<Rightarrow> string option \<Rightarrow> string \<Rightarrow> json option" where
  "try_repair_truncated_json loads current_pdf_path raw_response =
     (let pdf_filename =
            (case current_pdf_path of
               None \<Rightarrow> ''documento.pdf''
             | Some p \<Rightarrow> if p \<noteq> [] then basename p else ''documento.pdf'')
      in case strip_fences raw_response of
           None \<Rightarrow> None
         | Some cleaned \<Rightarrow>
             (case loads cleaned of
                Inr parsed_json \<Rightarrow> set_anexo pdf_filename parsed_json
              | Inl e \<Rightarrow>
                  if e \<noteq> JSONDecodeError then None
                  else if \<not> search_json_start cleaned then None
                  else
                    (let open_braces = count_list cleaned (CHR ''{'');
                         close_braces = count_list cleaned (CHR ''}'');
                         c1 = (if open_braces > close_braces
                               then cleaned @ replicate (open_braces - close_braces) (CHR ''}'')
                               else cleaned);
                         c2 = (if search_last_property c1
                               then c1 @ '' '' @ [DQ] @ ''Parcial'' @ [DQ]
                               else c1);
                         c3 = (if endswith (rstrip c2) '',''
                               then rstrip_comma (rstrip c2) @ [NL] @ ''}''
                               else c2)
                     in case loads c3 of
                          Inr parsed_json \<Rightarrow> set_anexo pdf_filename parsed_json
                        | Inl e' \<Rightarrow> None)))"

section \<open>Python values and exceptions\<close>

text \<open>Truth value testing, as \<open>not x\<close>, \<open>if x\<close> and \<open>x or y\<close> use it. A float is zero
  when its literal has digits and no digit of its mantissa differs from 0.\<close>

definition float_nonzero :: "string \<Rightarrow> bool" where
  "float_nonzero lit =
     (\<not> list_ex is_digit lit
      \<or> list_ex (\<lambda>c. is_digit c \<and> c \<noteq> CHR ''0'')
           (takeWhile (\<lambda>c. c \<noteq> CHR ''e'' \<and> c \<noteq> CHR ''E'') lit))"

fun truthy :: "json \<Rightarrow> bool" where
  "truthy JNull = False"
| "truthy (JBool b) = b"
| "truthy (JInt n) = (n \<noteq> 0)"
| "truthy (JFloat lit) = float_nonzero lit"
| "truthy (JString s) = (s \<noteq> [])"
| "truthy (JArray xs) = (xs \<noteq> [])"
| "truthy (JObject d) = (d \<noteq> [])"

definition py_or :: "json \<Rightarrow> json \<Rightarrow> json" where
  "py_or x y = (if truthy x then x else y)"

fun type_name :: "json \<Rightarrow> string" where
  "type_name JNull = ''NoneType''"
| "type_name (JBool b) = ''bool''"
| "type_name (JInt n) = ''int''"
| "type_name (JFloat lit) = ''float''"
| "type_name (JString s) = ''str''"
| "type_name (JArray xs) = ''list''"
| "type_name (JObject d) = ''dict''"

definition no_attribute :: "json \<Rightarrow> string \<Rightarrow> py_error" where
  "no_attribute v a =
     AttributeError ([SQ] @ type_name v @ [SQ] @ '' object has no attribute '' @ [SQ] @ a @ [SQ])"

definition bind_err :: "py_error + 'a \<Rightarrow> ('a \<Rightarrow> py_error + 'b) \<Rightarrow> py_error + 'b" where
  "bind_err m f = (case m of Inl e \<Rightarrow> Inl e | Inr x \<Rightarrow> f x)"

section \<open>Domain models (repoSQL.py)\<close>

text \<open>The classes annotate their fields \<open>str\<close> and \<open>Optional[str]\<close>, and nothing
  enforces it: a field holds whatever value it was given.\<close>

record OrgaoContratante =
  razao_social :: json
  sigla :: json
  cnpj :: json

record EmpresaContratada =
  empresa_razao_social :: json
  empresa_cnpj :: json

record Item =
  descricao :: json
  especificacao :: json
  unidade_medida :: json
  quantidade :: json
  valor_unitario :: json
  valor_total :: json
  catmat_catser :: json
  tipo :: json
  locais_execucao_entrega :: json

record Contrato =
  numero_contrato :: json
  tipo_instrumento :: json
  processo_administrativo :: json
  data_celebracao :: json
  fonte_preco :: json
  referencia_contrato :: json
  url_pdf_s3 :: json
  status_extracao :: json
  orgao_contratante :: OrgaoContratante
  empresa_contratada :: EmpresaContratada
  itens :: "Item list"

section \<open>ContractParser\<close>

text \<open>\<open>x.get(k)\<close> and \<open>x.get(k, default)\<close> on a value that may not be a dict.\<close>

definition py_get :: "json \<Rightarrow> string \<Rightarrow> json \<Rightarrow> py_error + json" where
  "py_get x k dflt =
     (case x of
        JObject d \<Rightarrow> Inr (dict_get_default d k dflt)
      | _ \<Rightarrow> Inl (no_attribute x ''get''))"


text \<open>Lines 90 to 95.\<close>

definition parse_orgao :: "json \<Rightarrow> py_error + OrgaoContratante" where
  "parse_orgao oc_data =
     bind_err (py_get oc_data ''razao_social'' (JString [])) (\<lambda>rs.
     bind_err (py_get oc_data ''sigla'' JNull) (\<lambda>sg.
     bind_err (py_get oc_data ''cnpj'' (JString [])) (\<lambda>cn.
     Inr \<lparr>razao_social = rs, sigla = sg, cnpj = cn\<rparr>)))"

text \<open>Lines 97 to 101.\<close>

definition parse_empresa :: "json \<Rightarrow> py_error + EmpresaContratada" where
  "parse_empresa ec_data =
     bind_err (py_get ec_data ''razao_social'' (JString [])) (\<lambda>rs.
     bind_err (py_get ec_data ''cnpj'' (JString [])) (\<lambda>cn.
     Inr \<lparr>empresa_razao_social = rs, empresa_cnpj = cn\<rparr>))"

text \<open>Lines 105 to 115.\<close>

definition parse_item :: "json \<Rightarrow> py_error + Item" where
  "parse_item item_data =
     bind_err (py_get item_data ''descricao'' (JString [])) (\<lambda>de.
     bind_err (py_get item_data ''especificacao'' JNull) (\<lambda>es.
     bind_err (py_get item_data ''unidade_medida'' JNull) (\<lambda>um.
     bind_err (py_get item_data ''quantidade'' JNull) (\<lambda>qt.
     bind_err (py_get item_data ''valor_unitario'' JNull) (\<lambda>vu.
     bind_err (py_get item_data ''valor_total'' JNull) (\<lambda>vt.
     bind_err (py_get item_data ''catmat_catser'' JNull) (\<lambda>cc.
     bind_err (py_get item_data ''tipo'' (JString ''Material'')) (\<lambda>tp.
     bind_err (py_get item_data ''locais_execucao_entrega'' JNull) (\<lambda>le.
     Inr \<lparr>descricao = de, especificacao = es, unidade_medida = um, quantidade = qt,
          valor_unitario = vu, valor_total = vt, catmat_catser = cc, tipo = tp,
          locais_execucao_entrega = le\<rparr>)))))))))"

text \<open>What a \<open>for\<close> loop iterates over: the elements of a list, the characters of a
  string, the keys of a dict; any other value is not iterable.\<close>

definition py_iter :: "json \<Rightarrow> py_error + json list" where
  "py_iter x =
     (case x of
        JArray xs \<Rightarrow> Inr xs
      | JString s \<Rightarrow> Inr (map (\<lambda>c. JString [c]) s)
      | JObject d \<Rightarrow> Inr (map (\<lambda>kv. JString (fst kv)) d)
      | _ \<Rightarrow> Inl (TypeError ([SQ] @ type_name x @ [SQ] @ '' object is not iterable'')))"

text \<open>The loop of lines 103 to 116: the first item that raises ends it.\<close>

fun parse_itens :: "json list \<Rightarrow> py_error + Item list" where
  "parse_itens [] = Inr []"
| "parse_itens (item_data # rest) =
     bind_err (parse_item item_data) (\<lambda>item.
     bind_err (parse_itens rest) (\<lambda>items. Inr (item # items)))"

text \<open>The body of \<open>ContractParser.parse\<close> after \<open>json.loads\<close>.\<close>

definition parse_data :: "json \<Rightarrow> py_error + Contrato" where
  "parse_data data =
     bind_err (py_get data ''orgao_contratante'' JNull) (\<lambda>oc.
     bind_err (parse_orgao (py_or oc (JObject []))) (\<lambda>orgao.
     bind_err (py_get data ''empresa_contratada'' JNull) (\<lambda>ec.
     bind_err (parse_empresa (py_or ec (JObject []))) (\<lambda>empresa.
     bind_err (py_get data ''itens'' (JArray [])) (\<lambda>its.
     bind_err (py_iter its) (\<lambda>item_datas.
     bind_err (parse_itens item_datas) (\<lambda>itens_list.
     bind_err (py_get data ''numero_contrato'' (JString [])) (\<lambda>nc.
     bind_err (py_get data ''tipo_instrumento'' (JString ''Contrato'')) (\<lambda>ti.
     bind_err (py_get data ''processo_administrativo'' JNull) (\<lambda>pa.
     bind_err (py_get data ''data_celebracao'' JNull) (\<lambda>dc.
     bind_err (py_get data ''fonte_preco'' (JString ''Contrato'')) (\<lambda>fp.
     bind_err (py_get data ''referencia_contrato'' JNull) (\<lambda>rc.
     bind_err (py_get data ''url_pdf_s3'' JNull) (\<lambda>url.
     bind_err (py_get data ''status_extracao'' (JString ''Sucesso'')) (\<lambda>st.
     Inr \<lparr>numero_contrato = nc, tipo_instrumento = ti, processo_administrativo = pa,
          data_celebracao = dc, fonte_preco = fp, referencia_contrato = rc,
          url_pdf_s3 = url, status_extracao = st, orgao_contratante = orgao,
          empresa_contratada = empresa, itens = itens_list\<rparr>)))))))))))))))"

definition parse ::
  "(string \<Rightarrow> py_error + json) \<Rightarrow> string \<Rightarrow> py_error + Contrato" where
  "parse loads json_str =
     (case loads json_str of
        Inl e \<Rightarrow> Inl e
      | Inr data \<Rightarrow> parse_data data)"

section \<open>The database (schema precos)\<close>

text \<open>
  The state of the database: each table is the list of its rows in insertion order. A
  row of \<open>orgao_contratante\<close>, \<open>empresa_contratada\<close> or \<open>contratos\<close> is paired with its
  \<open>id\<close>, a row of \<open>itens\<close> with its \<open>contrato_id\<close>; \<open>catmat\<close> and \<open>catser\<close> are given by
  their code columns (\<open>codigo_item\<close>, \<open>codigo_material_servico\<close>). A column holds the
  value the driver was passed, \<open>None\<close> being SQL's \<open>NULL\<close>. The column \<open>data_registro\<close> of
  the log (\<open>now()\<close>) is left out.
\<close>

type_synonym date = "nat \<times> nat \<times> nat"

record contratos_row =
  row_numero_contrato :: json
  row_tipo_instrumento :: json
  row_processo_administrativo :: json
  row_data_celebracao :: "date option"
  row_fonte_preco :: json
  row_referencia_contrato :: json
  row_url_pdf_s3 :: json
  row_status_extracao :: json
  orgao_contratante_id :: nat
  empresa_contratada_id :: nat

record log_row =
  cnpj_orgao :: json
  cnpj_empresa :: json
  log_numero_contrato :: json
  data_contrato :: "date option"
  quantidade_itens :: nat
  status_execucao :: string
  mensagem_log :: string

record database =
  tbl_orgao_contratante :: "(nat \<times> OrgaoContratante) list"
  tbl_empresa_contratada :: "(nat \<times> EmpresaContratada) list"
  tbl_contratos :: "(nat \<times> contratos_row) list"
  tbl_itens :: "(nat \<times> Item) list"
  tbl_catmat :: "json list"
  tbl_catser :: "json list"
  tbl_log_extrator :: "log_row list"

text \<open>The statements that write, and \<open>COMMIT\<close>.\<close>

datatype statement =
    InsertOrgao OrgaoContratante
  | InsertEmpresa EmpresaContratada
  | InsertContrato contratos_row
  | InsertItem nat Item
  | Commit
  | InsertLog log_row

text \<open>
  The schema and its constraints are not part of the repository. What the database
  rejects is a parameter \<open>rejects\<close> of the operations: \<open>rejects db st\<close> is the message of
  the exception that statement \<open>st\<close> raises in state \<open>db\<close>, or \<open>None\<close> when it is carried
  out. Queries, \<open>rollback\<close> and the assignments to \<open>autocommit\<close> are taken not to raise.
\<close>

type_synonym rejects = "database \<Rightarrow> statement \<Rightarrow> string option"

text \<open>SQL's \<open>column = %s\<close>: never true on \<open>NULL\<close>, on either side.\<close>

definition sql_eq :: "json \<Rightarrow> json \<Rightarrow> bool" where
  "sql_eq column param = (column \<noteq> JNull \<and> param \<noteq> JNull \<and> column = param)"

text \<open>The \<open>id\<close> a serial column gives a new row: above every \<open>id\<close> of the table.\<close>

definition new_id :: "(nat \<times> 'r) list \<Rightarrow> nat" where
  "new_id tbl = Suc (fold max (map fst tbl) 0)"

text \<open>\<open>SELECT id ... LIMIT 1\<close>: the \<open>id\<close> of the first row that matches.\<close>

definition select_id :: "('r \<Rightarrow> bool) \<Rightarrow> (nat \<times> 'r) list \<Rightarrow> nat option" where
  "select_id matches tbl = map_option fst (find (\<lambda>r. matches (snd r)) tbl)"

section \<open>ContractRepository\<close>

definition get_orgao_contratante_by_cnpj :: "database \<Rightarrow> json \<Rightarrow> nat option" where
  "get_orgao_contratante_by_cnpj db c =
     select_id (\<lambda>r. sql_eq (cnpj r) c) (tbl_orgao_contratante db)"

definition get_empresa_contratada_by_cnpj :: "database \<Rightarrow> json \<Rightarrow> nat option" where
  "get_empresa_contratada_by_cnpj db c =
     select_id (\<lambda>r. sql_eq (empresa_cnpj r) c) (tbl_empresa_contratada db)"

definition insert_orgao_contratante ::
  "rejects \<Rightarrow> database \<Rightarrow> OrgaoContratante \<Rightarrow> py_error + nat \<times> database" where
  "insert_orgao_contratante rejects db orgao =
     (case get_orgao_contratante_by_cnpj db (cnpj orgao) of
        Some existing_id \<Rightarrow> Inr (existing_id, db)
      | None \<Rightarrow>
          (case rejects db (InsertOrgao orgao) of
             Some msg \<Rightarrow> Inl (DatabaseError msg)
           | None \<Rightarrow>
               (let new = new_id (tbl_orgao_contratante db)
                in Inr (new, db\<lparr>tbl_orgao_contratante :=
                                   tbl_orgao_contratante db @ [(new, orgao)]\<rparr>))))"

definition insert_empresa_contratada ::
  "rejects \<Rightarrow> database \<Rightarrow> EmpresaContratada \<Rightarrow> py_error + nat \<times> database" where
  "insert_empresa_contratada rejects db empresa =
     (case get_empresa_contratada_by_cnpj db (empresa_cnpj empresa) of
        Some existing_id \<Rightarrow> Inr (existing_id, db)
      | None \<Rightarrow>
          (case rejects db (InsertEmpresa empresa) of
             Some msg \<Rightarrow> Inl (DatabaseError msg)
           | None \<Rightarrow>
               (let new = new_id (tbl_empresa_contratada db)
                in Inr (new, db\<lparr>tbl_empresa_contratada :=
                                   tbl_empresa_contratada db @ [(new, empresa)]\<rparr>))))"

definition get_contrato_by_numero_urlpdf :: "database \<Rightarrow> json \<Rightarrow> json \<Rightarrow> nat option" where
  "get_contrato_by_numero_urlpdf db numero url =
     select_id (\<lambda>r. sql_eq (row_numero_contrato r) numero \<and> sql_eq (row_url_pdf_s3 r) url)
       (tbl_contratos db)"

text \<open>
  \<open>datetime.strptime(x, "%d/%m/%Y").date()\<close> under \<open>if x:\<close> and \<open>except ValueError\<close>, as
  lines 233 to 243 and 377 to 383 have it. \<open>strptime\<close> is the library's function on
  strings, a parameter: \<open>None\<close> is its \<open>ValueError\<close>. A value that is not a string makes
  it raise \<open>TypeError\<close>, which the handler does not catch.
\<close>

definition date_of :: "(string \<Rightarrow> date option) \<Rightarrow> json \<Rightarrow> py_error + date option" where
  "date_of strptime x =
     (if truthy x then
        (case x of
           JString s \<Rightarrow> Inr (strptime s)
         | _ \<Rightarrow> Inl (TypeError (''strptime() argument 1 must be str, not '' @ type_name x)))
      else Inr None)"

definition insert_contrato ::
  "(string \<Rightarrow> date option) \<Rightarrow> rejects \<Rightarrow> database \<Rightarrow> Contrato \<Rightarrow> nat \<Rightarrow> nat
     \<Rightarrow> py_error + nat \<times> database" where
  "insert_contrato strptime rejects db contrato orgao_id empresa_id =
     (case get_contrato_by_numero_urlpdf db (numero_contrato contrato) (url_pdf_s3 contrato) of
        Some existing_id \<Rightarrow> Inr (existing_id, db)
      | None \<Rightarrow>
          bind_err (date_of strptime (data_celebracao contrato)) (\<lambda>data_celebracao_sql.
            (let row = \<lparr>row_numero_contrato = numero_contrato contrato,
                        row_tipo_instrumento = tipo_instrumento contrato,
                        row_processo_administrativo = processo_administrativo contrato,
                        row_data_celebracao = data_celebracao_sql,
                        row_fonte_preco = fonte_preco contrato,
                        row_referencia_contrato = referencia_contrato contrato,
                        row_url_pdf_s3 = url_pdf_s3 contrato,
                        row_status_extracao = status_extracao contrato,
                        orgao_contratante_id = orgao_id,
                        empresa_contratada_id = empresa_id\<rparr>
             in case rejects db (InsertContrato row) of
                  Some msg \<Rightarrow> Inl (DatabaseError msg)
                | None \<Rightarrow>
                    (let new = new_id (tbl_contratos db)
                     in Inr (new, db\<lparr>tbl_contratos := tbl_contratos db @ [(new, row)]\<rparr>)))))"

definition is_valid_catmat_catser :: "database \<Rightarrow> json \<Rightarrow> bool" where
  "is_valid_catmat_catser db code =
     (if \<not> truthy code then False
      else if list_ex (\<lambda>codigo_item. sql_eq codigo_item code) (tbl_catmat db) then True
      else if list_ex (\<lambda>codigo. sql_eq codigo code) (tbl_catser db) then True
      else False)"

definition insert_item :: "rejects \<Rightarrow> database \<Rightarrow> Item \<Rightarrow> nat \<Rightarrow> py_error + database" where
  "insert_item rejects db item contrato_id =
     (case rejects db (InsertItem contrato_id item) of
        Some msg \<Rightarrow> Inl (DatabaseError msg)
      | None \<Rightarrow> Inr (db\<lparr>tbl_itens := tbl_itens db @ [(contrato_id, item)]\<rparr>))"

definition insert_log_extrator :: "rejects \<Rightarrow> database \<Rightarrow> log_row \<Rightarrow> py_error + database" where
  "insert_log_extrator rejects db entry =
     (case rejects db (InsertLog entry) of
        Some msg \<Rightarrow> Inl (DatabaseError msg)
      | None \<Rightarrow> Inr (db\<lparr>tbl_log_extrator := tbl_log_extrator db @ [entry]\<rparr>))"

text \<open>The loop of lines 403 and 404.\<close>

fun insert_items :: "rejects \<Rightarrow> database \<Rightarrow> Item list \<Rightarrow> nat \<Rightarrow> py_error + database" where
  "insert_items rejects db [] contrato_id = Inr db"
| "insert_items rejects db (item # rest) contrato_id =
     bind_err (insert_item rejects db item contrato_id) (\<lambda>db'.
       insert_items rejects db' rest contrato_id)"

text \<open>The body of the \<open>try\<close> of \<open>persist_contract\<close>, lines 397 to 406: the state the
  transaction commits and the \<open>id\<close> of the contract, or the exception.\<close>

definition insert_sequence ::
  "(string \<Rightarrow> date option) \<Rightarrow> rejects \<Rightarrow> database \<Rightarrow> Contrato \<Rightarrow> py_error + nat \<times> database"
  where
  "insert_sequence strptime rejects db contrato =
     bind_err (insert_orgao_contratante rejects db (orgao_contratante contrato))
       (\<lambda>(orgao_id, db1).
     bind_err (insert_empresa_contratada rejects db1 (empresa_contratada contrato))
       (\<lambda>(empresa_id, db2).
     bind_err (insert_contrato strptime rejects db2 contrato orgao_id empresa_id)
       (\<lambda>(contrato_id, db3).
     bind_err (insert_items rejects db3 (itens contrato) contrato_id)
       (\<lambda>db4.
     (case rejects db4 Commit of
        Some msg \<Rightarrow> Inl (DatabaseError msg)
      | None \<Rightarrow> Inr (contrato_id, db4))))))"

text \<open>
  \<open>persist_contract\<close>: the contract as the call leaves it and the state of the database
  after it, or the exception that leaves the call. \<open>rollback\<close> gives back the state the
  transaction started from, and the log is written to the state the transaction left.
\<close>

definition persist_contract ::
  "(string \<Rightarrow> date option) \<Rightarrow> rejects \<Rightarrow> Contrato \<Rightarrow> database
     \<Rightarrow> py_error + Contrato \<times> database" where
  "persist_contract strptime rejects contrato db =
     bind_err (date_of strptime (data_celebracao contrato)) (\<lambda>data_contrato_sql.
       (let valid_items =
              filter (\<lambda>item. is_valid_catmat_catser db (catmat_catser item)) (itens contrato);
            contrato' = contrato\<lparr>itens := valid_items\<rparr>;
            qtd_itens = length valid_items;
            (log_status, log_msg, db') =
              (case insert_sequence strptime rejects db contrato' of
                 Inr (contrato_id, committed) \<Rightarrow>
                   (''Sucesso'', ''Contrato processado com sucesso.'', committed)
               | Inl e \<Rightarrow>
                   (''Falha'', ''Erro ao processar contrato: '' @ error_text e, db));
            entry = \<lparr>cnpj_orgao = cnpj (orgao_contratante contrato'),
                     cnpj_empresa = empresa_cnpj (empresa_contratada contrato'),
                     log_numero_contrato = numero_contrato contrato',
                     data_contrato = data_contrato_sql,
                     quantidade_itens = qtd_itens,
                     status_execucao = log_status,
                     mensagem_log = log_msg\<rparr>
        in case insert_log_extrator rejects db' entry of
             Inr logged \<Rightarrow> Inr (contrato', logged)
           | Inl e_log \<Rightarrow> Inr (contrato', db')))"

section \<open>Formatting\<close>

text \<open>\<open>str.lower\<close> on one character: the letters A to Z and, above 127, the capital
  letters 0xC0 to 0xDE but for the sign 0xD7.\<close>

definition lower_char :: "char \<Rightarrow> char" where
  "lower_char c =
     (let n = (of_char c :: nat)
      in if (65 \<le> n \<and> n \<le> 90) \<or> (192 \<le> n \<and> n \<le> 222 \<and> n \<noteq> 215)
         then char_of (n + 32) else c)"

definition lower :: "string \<Rightarrow> string" where
  "lower s = map lower_char s"

text \<open>\<open>sep.join(parts)\<close>.\<close>

fun str_join :: "string \<Rightarrow> string list \<Rightarrow> string" where
  "str_join sep [] = []"
| "str_join sep [x] = x"
| "str_join sep (x # y # rest) = x @ sep @ str_join sep (y # rest)"

text \<open>The decimal digits of a number, as \<open>str\<close> prints an \<open>int\<close>.\<close>

function show_nat :: "nat \<Rightarrow> string" where
  "show_nat n =
     (if n < 10 then [char_of (48 + n)]
      else show_nat (n div 10) @ [char_of (48 + n mod 10)])"
  by pat_completeness auto
termination
  by (relation "measure id") auto

declare show_nat.simps [simp del]

definition show_int :: "int \<Rightarrow> string" where
  "show_int i = (if i < 0 then ''-'' @ show_nat (nat (- i)) else show_nat (nat i))"

text \<open>\<open>repr\<close> of a string: double quotes when it has a single quote and no double
  quote, single quotes otherwise; the quote and the backslash are escaped, and so is a
  character that is not printable.\<close>

definition hex_digit :: "nat \<Rightarrow> char" where
  "hex_digit n = (if n < 10 then char_of (48 + n) else char_of (87 + n))"

definition repr_char :: "char \<Rightarrow> char \<Rightarrow> string" where
  "repr_char quote c =
     (let n = (of_char c :: nat)
      in if c = quote \<or> c = BSL then [BSL, c]
         else if c = CHR 0x09 then [BSL, CHR ''t'']
         else if c = CHR 0x0A then [BSL, CHR ''n'']
         else if c = CHR 0x0D then [BSL, CHR ''r'']
         else if n < 32 \<or> n = 127 \<or> (128 \<le> n \<and> n \<le> 160) \<or> n = 173
         then [BSL, CHR ''x'', hex_digit (n div 16), hex_digit (n mod 16)]
         else [c])"

definition repr_str :: "string \<Rightarrow> string" where
  "repr_str s =
     (let quote = (if SQ \<in> set s \<and> DQ \<notin> set s then DQ else SQ)
      in [quote] @ concat (map (repr_char quote) s) @ [quote])"

text \<open>\<open>repr\<close> of a value. The text Python prints for a float is not modelled: the
  literal stands for it.\<close>

fun py_repr :: "json \<Rightarrow> string"
  and py_repr_list :: "json list \<Rightarrow> string list"
  and py_repr_items :: "(string \<times> json) list \<Rightarrow> string list"
where
  "py_repr JNull = ''None''"
| "py_repr (JBool b) = (if b then ''True'' else ''False'')"
| "py_repr (JInt n) = show_int n"
| "py_repr (JFloat lit) = lit"
| "py_repr (JString s) = repr_str s"
| "py_repr (JArray xs) = ''['' @ str_join '', '' (py_repr_list xs) @ '']''"
| "py_repr (JObject d) = ''{'' @ str_join '', '' (py_repr_items d) @ ''}''"
| "py_repr_list [] = []"
| "py_repr_list (x # xs) = py_repr x # py_repr_list xs"
| "py_repr_items [] = []"
| "py_repr_items (kv # d) = (repr_str (fst kv) @ '': '' @ py_repr (snd kv)) # py_repr_items d"

text \<open>\<open>str\<close> of a value, which is what an f-string puts for \<open>{x}\<close>.\<close>

definition py_str :: "json \<Rightarrow> string" where
  "py_str x = (case x of JString s \<Rightarrow> s | _ \<Rightarrow> py_repr x)"

section \<open>generate_sql_script\<close>

text \<open>\<open>(x or "").replace("'", new)\<close>; a value that is true and not a string has no
  \<open>replace\<close>.\<close>

definition or_empty_replace :: "json \<Rightarrow> string \<Rightarrow> py_error + string" where
  "or_empty_replace x new =
     (case py_or x (JString []) of
        JString s \<Rightarrow> Inr (str_replace s [SQ] new)
      | y \<Rightarrow> Inl (no_attribute y ''replace''))"

text \<open>\<open>re.match(r'^\d{2}/\d{2}/\d{4}$', s)\<close>; the \<open>$\<close> also matches before one final
  newline.\<close>

definition match_date :: "string \<Rightarrow> bool" where
  "match_date s =
     ((length s = 10 \<or> (length s = 11 \<and> s ! 10 = NL))
      \<and> is_digit (s ! 0) \<and> is_digit (s ! 1) \<and> s ! 2 = CHR ''/''
      \<and> is_digit (s ! 3) \<and> is_digit (s ! 4) \<and> s ! 5 = CHR ''/''
      \<and> is_digit (s ! 6) \<and> is_digit (s ! 7) \<and> is_digit (s ! 8) \<and> is_digit (s ! 9))"

text \<open>Lines 503 to 510; the \<open>TypeError\<close> is that of \<open>re.match\<close> on a value that is not a
  string (in the wording of Python 3.11).\<close>

definition data_sql_of :: "json \<Rightarrow> py_error + string" where
  "data_sql_of x =
     (if truthy x then
        (case x of
           JString s \<Rightarrow>
             Inr (if match_date s
                  then ''TO_DATE('' @ [SQ] @ s @ [SQ] @ '', '' @ [SQ] @ ''DD/MM/YYYY'' @ [SQ] @ '')''
                  else ''NULL'')
         | _ \<Rightarrow>
             Inl (TypeError (''expected string or bytes-like object, got ''
                             @ [SQ] @ type_name x @ [SQ])))
      else Inr ''NULL'')"

text \<open>Lines 583 to 610: the \<open>SELECT\<close> of one item.\<close>

definition item_select :: "Item \<Rightarrow> py_error + string" where
  "item_select item =
     bind_err (or_empty_replace (descricao item) [SQ, SQ]) (\<lambda>desc.
     bind_err (or_empty_replace (especificacao item) [SQ, SQ]) (\<lambda>espec.
     bind_err (or_empty_replace (unidade_medida item) [SQ, SQ]) (\<lambda>um.
     bind_err (or_empty_replace (quantidade item) []) (\<lambda>qtd.
     bind_err (or_empty_replace (valor_unitario item) []) (\<lambda>val_unit.
     bind_err (or_empty_replace (valor_total item) []) (\<lambda>val_total.
     bind_err (or_empty_replace (catmat_catser item) []) (\<lambda>catmat.
     bind_err (or_empty_replace (tipo item) [SQ, SQ]) (\<lambda>tipo_sql.
     bind_err (or_empty_replace (locais_execucao_entrega item) [SQ, SQ]) (\<lambda>locais.
     Inr (str_join [NL]
         [[],
          ''    id,'',
          ''    '' @ [SQ] @ desc @ [SQ] @ '','',
          ''    '' @ [SQ] @ espec @ [SQ] @ '','',
          ''    '' @ [SQ] @ um @ [SQ] @ '','',
          ''    '' @ [SQ] @ qtd @ [SQ] @ '','',
          ''    '' @ [SQ] @ val_unit @ [SQ] @ '','',
          ''    '' @ [SQ] @ val_total @ [SQ] @ '','',
          ''    '' @ [SQ] @ catmat @ [SQ] @ '','',
          ''    '' @ [SQ] @ tipo_sql @ [SQ] @ '','',
          ''    '' @ [SQ] @ locais @ [SQ],
          ''FROM contrato_id'']))))))))))"

text \<open>The loop of lines 581 to 610: the lines it appends.\<close>

fun item_lines :: "bool \<Rightarrow> Item list \<Rightarrow> py_error + string list" where
  "item_lines first_item [] = Inr []"
| "item_lines first_item (item # rest) =
     bind_err (item_select item) (\<lambda>sel.
     bind_err (item_lines False rest) (\<lambda>more.
     Inr ((if first_item then ''SELECT'' else ''UNION ALL'' @ [NL] @ ''SELECT'')
          # sel # more)))"

text \<open>Lines 482 to 614: the script of a contract whose \<open>url_pdf_s3\<close> has been set.\<close>

definition build_script :: "Contrato \<Rightarrow> Item list \<Rightarrow> py_error + string" where
  "build_script contrato valid_items =
     (let orgao_cnpj = cnpj (orgao_contratante contrato);
          emp_cnpj = empresa_cnpj (empresa_contratada contrato)
      in
     bind_err (or_empty_replace (razao_social (orgao_contratante contrato)) [SQ, SQ])
       (\<lambda>orgao_razao.
     bind_err (or_empty_replace (sigla (orgao_contratante contrato)) [SQ, SQ])
       (\<lambda>orgao_sigla.
     bind_err (or_empty_replace (empresa_razao_social (empresa_contratada contrato)) [SQ, SQ])
       (\<lambda>emp_razao.
     bind_err (data_sql_of (data_celebracao contrato)) (\<lambda>data_sql.
     bind_err (or_empty_replace (numero_contrato contrato) [SQ, SQ]) (\<lambda>numero_contrato_sql.
     bind_err (or_empty_replace (tipo_instrumento contrato) [SQ, SQ])
       (\<lambda>tipo_instrumento_sql.
     bind_err (or_empty_replace (processo_administrativo contrato) [SQ, SQ]) (\<lambda>processo_adm.
     bind_err (or_empty_replace (fonte_preco contrato) [SQ, SQ]) (\<lambda>fonte_preco_sql.
     bind_err (or_empty_replace (referencia_contrato contrato) [SQ, SQ]) (\<lambda>ref_contrato.
     bind_err (or_empty_replace (url_pdf_s3 contrato) [SQ, SQ]) (\<lambda>url_pdf_s3_value.
     bind_err (or_empty_replace (status_extracao contrato) [SQ, SQ]) (\<lambda>status.
     bind_err (item_lines True valid_items) (\<lambda>selects.
     Inr (str_join [NL]
       ([str_join [NL]
          [''-- Inserindo Orgao Contratante'',
           ''INSERT INTO precos.orgao_contratante (razao_social, sigla, cnpj)'',
           ''VALUES ('' @ [SQ] @ orgao_razao @ [SQ] @ '', '' @ [SQ] @ orgao_sigla @ [SQ]
              @ '', '' @ [SQ] @ py_str orgao_cnpj @ [SQ] @ '')'',
           ''ON CONFLICT (cnpj) DO NOTHING; '',
           []],
         str_join [NL]
          [''-- Inserindo Empresa Contratada'',
           ''INSERT INTO precos.empresa_contratada (razao_social, cnpj)'',
           ''VALUES ('' @ [SQ] @ emp_razao @ [SQ] @ '', '' @ [SQ] @ py_str emp_cnpj
              @ [SQ] @ '')'',
           ''ON CONFLICT (cnpj) DO NOTHING;'',
           []],
         str_join [NL]
          [''-- Inserir contrato (se n'' @ [CHR 0xE3] @ ''o existir) e obter ID'',
           ''WITH contrato_upsert AS ('',
           ''    INSERT INTO precos.contratos ('',
           ''        numero_contrato,'',
           ''        tipo_instrumento,'',
           ''        processo_administrativo,'',
           ''        data_celebracao,'',
           ''        fonte_preco,'',
           ''        referencia_contrato,'',
           ''        url_pdf_s3,'',
           ''        status_extracao,'',
           ''        orgao_contratante_id,'',
           ''        empresa_contratada_id'',
           ''    )'',
           ''    SELECT '',
           ''        '' @ [SQ] @ numero_contrato_sql @ [SQ] @ '','',
           ''        '' @ [SQ] @ tipo_instrumento_sql @ [SQ] @ '','',
           ''        '' @ [SQ] @ processo_adm @ [SQ] @ '','',
           ''        '' @ data_sql @ '','',
           ''        '' @ [SQ] @ fonte_preco_sql @ [SQ] @ '','',
           ''        '' @ [SQ] @ ref_contrato @ [SQ] @ '','',
           ''        '' @ [SQ] @ url_pdf_s3_value @ [SQ] @ '','',
           ''        '' @ [SQ] @ status @ [SQ] @ '','',
           ''        (SELECT id FROM precos.orgao_contratante WHERE cnpj = '' @ [SQ]
              @ py_str orgao_cnpj @ [SQ] @ '' LIMIT 1),'',
           ''        (SELECT id FROM precos.empresa_contratada WHERE cnpj = '' @ [SQ]
              @ py_str emp_cnpj @ [SQ] @ '' LIMIT 1)'',
           ''    WHERE '',
           ''        NOT EXISTS ('',
           ''            SELECT 1 '',
           ''            FROM precos.contratos '',
           ''            WHERE url_pdf_s3 = '' @ [SQ] @ url_pdf_s3_value @ [SQ],
           ''        )'',
           ''    RETURNING id'',
           '')''],
         str_join [NL]
          ['', contrato_id AS ('',
           ''    SELECT id FROM contrato_upsert'',
           ''    UNION ALL'',
           ''    SELECT id FROM precos.contratos '',
           ''    WHERE url_pdf_s3 = '' @ [SQ] @ url_pdf_s3_value @ [SQ],
           ''      AND NOT EXISTS (SELECT 1 FROM contrato_upsert)'',
           ''    LIMIT 1'',
           '')''],
         str_join [NL]
          [''-- Inserir itens'',
           ''INSERT INTO precos.itens ('',
           ''    contrato_id,'',
           ''    descricao,'',
           ''    especificacao,'',
           ''    unidade_medida,'',
           ''    quantidade,'',
           ''    valor_unitario,'',
           ''    valor_total,'',
           ''    catmat_catser,'',
           ''    tipo,'',
           ''    locais_execucao_entrega'',
           '')'']]
        @ selects @ ['';''])))))))))))))))"

text \<open>Lines 461 to 467: the URL of the document, \<open>.pdf\<close> being added to a file name
  that does not end with it in any case of the letters.\<close>

definition script_url :: "string \<Rightarrow> string" where
  "script_url filename =
     (let pdf_filename =
            (if \<not> endswith (lower filename) ''.pdf'' then filename @ ''.pdf'' else filename)
      in ''s3://compras-ia-np/Contratos/'' @ pdf_filename)"

text \<open>The texts of the two returns of lines 458 and 476.\<close>

definition no_valid_items_comment :: "string \<Rightarrow> string" where
  "no_valid_items_comment filename =
     ''-- Contrato de '' @ filename @ '' n'' @ [CHR 0xE3] @ ''o possui itens v''
     @ [CHR 0xE1] @ ''lidos. Nenhuma a'' @ [CHR 0xE7] @ [CHR 0xE3] @ ''o realizada.''"

definition already_exists_comment :: "string \<Rightarrow> nat \<Rightarrow> string" where
  "already_exists_comment url_pdf_s3_new existing_id =
     ''-- Contrato com URL do PDF '' @ [SQ] @ url_pdf_s3_new @ [SQ] @ '' j'' @ [CHR 0xE1]
     @ '' existe no banco de dados (ID='' @ show_nat existing_id @ ''). Nenhuma a''
     @ [CHR 0xE7] @ [CHR 0xE3] @ ''o realizada.''"

text \<open>
  \<open>generate_sql_script\<close>: \<open>db\<close> is the state of the database the function connects to.
  The result is the returned text, or the exception, and the contract as the call
  leaves it.
\<close>

definition generate_sql_script ::
  "database \<Rightarrow> Contrato \<Rightarrow> string \<Rightarrow> (py_error + string) \<times> Contrato" where
  "generate_sql_script db contrato filename =
     (let valid_items =
            filter (\<lambda>it. is_valid_catmat_catser db (catmat_catser it)) (itens contrato)
      in if valid_items = [] then (Inr (no_valid_items_comment filename), contrato)
         else
           (let url_pdf_s3_new = script_url filename
            in case select_id (\<lambda>r. sql_eq (row_url_pdf_s3 r) (JString url_pdf_s3_new))
                      (tbl_contratos db) of
                 Some existing_id \<Rightarrow>
                   (Inr (already_exists_comment url_pdf_s3_new existing_id), contrato)
               | None \<Rightarrow>
                   (let contrato' = contrato\<lparr>url_pdf_s3 := JString url_pdf_s3_new\<rparr>
                    in (build_script contrato' valid_items, contrato'))))"

section \<open>Example inputs\<close>

text \<open>An item with a given classification code, a contract with a given \<open>url_pdf_s3\<close>
  and items, and a database whose reference tables hold the codes A1 and S9.\<close>

definition example_item :: "string \<Rightarrow> Item" where
  "example_item code =
     \<lparr>descricao = JString ''x'', especificacao = JNull, unidade_medida = JNull,
      quantidade = JNull, valor_unitario = JNull, valor_total = JNull,
      catmat_catser = JString code, tipo = JString ''Material'',
      locais_execucao_entrega = JNull\<rparr>"

definition example_contrato :: "json \<Rightarrow> Item list \<Rightarrow> Contrato" where
  "example_contrato url items =
     \<lparr>numero_contrato = JString ''123'', tipo_instrumento = JString ''Contrato'',
      processo_administrativo = JNull, data_celebracao = JNull,
      fonte_preco = JString ''Contrato'', referencia_contrato = JNull,
      url_pdf_s3 = url, status_extracao = JString ''Sucesso'',
      orgao_contratante = \<lparr>razao_social = JString [], sigla = JNull, cnpj = JString ''1''\<rparr>,
      empresa_contratada = \<lparr>empresa_razao_social = JString [], empresa_cnpj = JString ''2''\<rparr>,
      itens = items\<rparr>"

definition example_db :: database where
  "example_db =
     \<lparr>tbl_orgao_contratante = [], tbl_empresa_contratada = [], tbl_contratos = [],
      tbl_itens = [], tbl_catmat = [JString ''A1''], tbl_catser = [JString ''S9''],
      tbl_log_extrator = []\<rparr>"

text \<open>A \<open>strptime\<close> that accepts no date, and three databases: one that rejects nothing,
  one that rejects every insert into \<open>itens\<close>, one that rejects every insert into the
  log.\<close>

definition no_date :: "string \<Rightarrow> date option" where
  "no_date s = None"

definition never_rejects :: rejects where
  "never_rejects db st = None"

definition rejects_items :: rejects where
  "rejects_items db st = (case st of InsertItem cid item \<Rightarrow> Some ''boom'' | _ \<Rightarrow> None)"

definition rejects_log :: rejects where
  "rejects_log db st = (case st of InsertLog entry \<Rightarrow> Some ''boom'' | _ \<Rightarrow> None)"

text \<open>A reply of 1001 characters that is not JSON.\<close>

definition long_text :: string where
  "long_text = replicate 1001 (CHR ''x'')"

text \<open>Three replies of the model: an object inside code fences, an object cut off
  inside a nested object, and an object cut off after the colon of a key.\<close>

definition fenced_reply :: string where
  "fenced_reply =
     ''```json'' @ [NL] @ ''{'' @ [DQ] @ ''anexo_contrato'' @ [DQ] @ '': '' @ [DQ] @ ''evil''
     @ [DQ] @ ''}'' @ [NL] @ ''```''"

definition truncated_reply :: string where
  "truncated_reply =
     ''{'' @ [DQ] @ ''anexo_contrato'' @ [DQ] @ '': '' @ [DQ] @ ''evil'' @ [DQ] @ '', ''
     @ [DQ] @ ''a'' @ [DQ] @ '': {'' @ [DQ] @ ''b'' @ [DQ] @ '': 1''"

definition dangling_reply :: string where
  "dangling_reply =
     ''{'' @ [DQ] @ ''a'' @ [DQ] @ '':1,'' @ [DQ] @ ''b'' @ [DQ] @ '':''"



text \<open>A JSON text with a fence inside a string.\<close>

definition backtick_json :: string where
  "backtick_json = ''{'' @ [DQ] @ ''a'' @ [DQ] @ '':'' @ [DQ] @ ''```'' @ [DQ] @ ''}''"

section \<open>Properties of persist_contract\<close>

lemma bind_err_Inr: "bind_err m f = Inr y \<Longrightarrow> \<exists>x. m = Inr x \<and> f x = Inr y"
  by (cases m) (simp_all add: bind_err_def)

lemma persist_contract_result:
  assumes "persist_contract strptime rejects contrato db = Inr (contrato', db')"
  shows "contrato' = contrato\<lparr>itens :=
           filter (\<lambda>item. is_valid_catmat_catser db (catmat_catser item)) (itens contrato)\<rparr>"
  using assms
  by (auto simp: persist_contract_def Let_def dest!: bind_err_Inr
        split: sum.splits prod.splits)

text \<open>The call returns whenever \<open>data_celebracao\<close> is a string or a false value.\<close>

lemma persist_contract_returns:
  assumes "\<not> truthy (data_celebracao contrato) \<or> (\<exists>s. data_celebracao contrato = JString s)"
  shows "\<exists>contrato' db'. persist_contract strptime rejects contrato db = Inr (contrato', db')"
proof -
  from assms have "\<exists>d. date_of strptime (data_celebracao contrato) = Inr d"
    by (auto simp: date_of_def)
  then obtain d where "date_of strptime (data_celebracao contrato) = Inr d" ..
  then show ?thesis
    by (auto simp: persist_contract_def bind_err_def Let_def split: sum.splits prod.splits)
qed

lemma insert_items_result:
  "insert_items rejects db items cid = Inr db' \<Longrightarrow>
     db' = db\<lparr>tbl_itens := tbl_itens db @ map (Pair cid) items\<rparr>"
proof (induction items arbitrary: db)
  case Nil
  then show ?case by simp
next
  case (Cons item rest)
  from Cons.prems obtain db1 where
    a: "insert_item rejects db item cid = Inr db1" and
    b: "insert_items rejects db1 rest cid = Inr db'"
    by (auto dest!: bind_err_Inr)
  from a have "db1 = db\<lparr>tbl_itens := tbl_itens db @ [(cid, item)]\<rparr>"
    by (auto simp: insert_item_def split: option.splits)
  with Cons.IH [OF b] show ?case by simp
qed

lemma insert_sequence_result:
  assumes "insert_sequence strptime rejects db contrato = Inr (cid, db')"
  shows "tbl_itens db' = tbl_itens db @ map (Pair cid) (itens contrato)"
    and "tbl_log_extrator db' = tbl_log_extrator db"
    and "tbl_catmat db' = tbl_catmat db"
    and "tbl_catser db' = tbl_catser db"
proof -
  from assms obtain oid db1 eid db2 db3 db4 where
    s1: "insert_orgao_contratante rejects db (orgao_contratante contrato) = Inr (oid, db1)" and
    s2: "insert_empresa_contratada rejects db1 (empresa_contratada contrato) = Inr (eid, db2)" and
    s3: "insert_contrato strptime rejects db2 contrato oid eid = Inr (cid, db3)" and
    s4: "insert_items rejects db3 (itens contrato) cid = Inr db4" and
    s5: "db' = db4"
    by (auto simp: insert_sequence_def dest!: bind_err_Inr split: option.splits)
  from s1 have e1: "tbl_itens db1 = tbl_itens db" "tbl_log_extrator db1 = tbl_log_extrator db"
     "tbl_catmat db1 = tbl_catmat db" "tbl_catser db1 = tbl_catser db"
    by (auto simp: insert_orgao_contratante_def Let_def split: option.splits)
  from s2 have e2: "tbl_itens db2 = tbl_itens db1" "tbl_log_extrator db2 = tbl_log_extrator db1"
     "tbl_catmat db2 = tbl_catmat db1" "tbl_catser db2 = tbl_catser db1"
    by (auto simp: insert_empresa_contratada_def Let_def split: option.splits)
  from s3 have e3: "tbl_itens db3 = tbl_itens db2" "tbl_log_extrator db3 = tbl_log_extrator db2"
     "tbl_catmat db3 = tbl_catmat db2" "tbl_catser db3 = tbl_catser db2"
    by (auto simp: insert_contrato_def Let_def dest!: bind_err_Inr split: option.splits)
  from insert_items_result [OF s4] have e4: "db4 = db3\<lparr>tbl_itens := tbl_itens db3 @ map (Pair cid) (itens contrato)\<rparr>" .
  show "tbl_itens db' = tbl_itens db @ map (Pair cid) (itens contrato)"
    using e1 e2 e3 e4 s5 by simp
  show "tbl_log_extrator db' = tbl_log_extrator db" using e1 e2 e3 e4 s5 by simp
  show "tbl_catmat db' = tbl_catmat db" using e1 e2 e3 e4 s5 by simp
  show "tbl_catser db' = tbl_catser db" using e1 e2 e3 e4 s5 by simp
qed

text \<open>The state the transaction leaves and the log entry, spelled out.\<close>

lemma persist_contract_unfold:
  assumes "persist_contract strptime rejects contrato db = Inr (contrato', db')"
  shows "\<exists>entry after.
     (case insert_sequence strptime rejects db contrato' of
        Inl e \<Rightarrow>
          after = db \<and> status_execucao entry = ''Falha''
          \<and> mensagem_log entry = ''Erro ao processar contrato: '' @ error_text e
      | Inr (contrato_id, committed) \<Rightarrow>
          after = committed \<and> status_execucao entry = ''Sucesso''
          \<and> mensagem_log entry = ''Contrato processado com sucesso.'')
     \<and> quantidade_itens entry = length (itens contrato')
     \<and> db' = (case rejects after (InsertLog entry) of
                None \<Rightarrow> after\<lparr>tbl_log_extrator := tbl_log_extrator after @ [entry]\<rparr>
              | Some msg \<Rightarrow> after)"
proof -
  have c': "contrato' = contrato\<lparr>itens :=
           filter (\<lambda>item. is_valid_catmat_catser db (catmat_catser item)) (itens contrato)\<rparr>"
    using assms
    by (auto simp: persist_contract_def Let_def dest!: bind_err_Inr
        split: sum.splits prod.splits)
  from assms obtain d where d: "date_of strptime (data_celebracao contrato) = Inr d"
    by (auto simp: persist_contract_def dest!: bind_err_Inr)
  let ?entry = "\<lambda>st msg. \<lparr>cnpj_orgao = cnpj (orgao_contratante contrato),
                     cnpj_empresa = empresa_cnpj (empresa_contratada contrato),
                     log_numero_contrato = numero_contrato contrato,
                     data_contrato = d,
                     quantidade_itens = length (itens contrato'),
                     status_execucao = st,
                     mensagem_log = msg\<rparr>"
  show ?thesis
  proof (cases "insert_sequence strptime rejects db contrato'")
    case (Inl e)
    let ?e = "?entry ''Falha'' (''Erro ao processar contrato: '' @ error_text e)"
    have "db' = (case rejects db (InsertLog ?e) of
                None \<Rightarrow> db\<lparr>tbl_log_extrator := tbl_log_extrator db @ [?e]\<rparr>
              | Some msg \<Rightarrow> db)"
      using assms d c' Inl
      by (auto simp: persist_contract_def Let_def bind_err_def insert_log_extrator_def
            split: option.splits)
    with Inl show ?thesis
      by (intro exI [of _ ?e] exI [of _ db]) simp
  next
    case (Inr r)
    obtain cid committed where r: "r = (cid, committed)" by (cases r)
    let ?e = "?entry ''Sucesso'' ''Contrato processado com sucesso.''"
    have "db' = (case rejects committed (InsertLog ?e) of
                None \<Rightarrow> committed\<lparr>tbl_log_extrator := tbl_log_extrator committed @ [?e]\<rparr>
              | Some msg \<Rightarrow> committed)"
      using assms d c' Inr r
      by (auto simp: persist_contract_def Let_def bind_err_def insert_log_extrator_def
            split: option.splits)
    with Inr r show ?thesis
      by (intro exI [of _ ?e] exI [of _ committed]) simp
  qed
qed

text \<open>
  C10: \<open>persist_contract\<close> mutates its argument. When the call returns, the contract's
  \<open>itens\<close> is the list of the items that passed the classification-code check, in their
  order, and no other field has changed: an item the check dropped is gone from the
  caller's object too.
\<close>

theorem persist_contract_replaces_itens:
  assumes "persist_contract strptime rejects contrato db = Inr (contrato', db')"
  shows "contrato' = contrato\<lparr>itens :=
           filter (\<lambda>item. is_valid_catmat_catser db (catmat_catser item)) (itens contrato)\<rparr>"
  using assms
  by (auto simp: persist_contract_def Let_def dest!: bind_err_Inr
        split: sum.splits prod.splits)

theorem persist_contract_replaces_itens_witness:
  "\<not> isl (persist_contract no_date never_rejects
            (example_contrato JNull [example_item ''A1'', example_item ''zz'']) example_db)
   \<and> itens (fst (projr (persist_contract no_date never_rejects
            (example_contrato JNull [example_item ''A1'', example_item ''zz'']) example_db)))
       = [example_item ''A1'']"
proof -
  let ?r = "persist_contract no_date never_rejects
              (example_contrato JNull [example_item ''A1'', example_item ''zz'']) example_db"
  have h: "\<not> isl ?r" by code_simp
  then have "?r = Inr (fst (projr ?r), snd (projr ?r))" by simp
  from persist_contract_replaces_itens [OF this]
  have "itens (fst (projr ?r)) =
          filter (\<lambda>item. is_valid_catmat_catser example_db (catmat_catser item))
            [example_item ''A1'', example_item ''zz'']"
    by (simp add: example_contrato_def)
  also have "\<dots> = [example_item ''A1'']" by code_simp
  finally show ?thesis using h by simp
qed

text \<open>
  C3, as the code has it: for every call to \<open>persist_contract\<close> that returns, the
  transaction leaves a state \<open>after\<close>, which is the state before the call when an
  exception was raised during insertion (the rollback is in full) and the committed
  state otherwise, and one log entry is prepared, with status Falha and the exception's
  message in the first case and status Sucesso in the second. That entry is appended to
  the log outside the transaction, unless the database rejects the insert into the log:
  that exception is caught, and then no log row is written. So at most one row is
  written, and exactly one whenever the log insert itself is carried out.
\<close>

theorem persist_contract_log_entry:
  assumes "persist_contract strptime rejects contrato db = Inr (contrato', db')"
  shows "\<exists>entry after.
     (case insert_sequence strptime rejects db contrato' of
        Inl e \<Rightarrow>
          after = db \<and> status_execucao entry = ''Falha''
          \<and> mensagem_log entry = ''Erro ao processar contrato: '' @ error_text e
      | Inr (contrato_id, committed) \<Rightarrow>
          after = committed \<and> status_execucao entry = ''Sucesso''
          \<and> mensagem_log entry = ''Contrato processado com sucesso.'')
     \<and> tbl_log_extrator after = tbl_log_extrator db
     \<and> db' = (case rejects after (InsertLog entry) of
                None \<Rightarrow> after\<lparr>tbl_log_extrator := tbl_log_extrator after @ [entry]\<rparr>
              | Some msg \<Rightarrow> after)"
proof -
  from persist_contract_unfold [OF assms] obtain entry after where
    tx: "case insert_sequence strptime rejects db contrato' of
        Inl e \<Rightarrow>
          after = db \<and> status_execucao entry = ''Falha''
          \<and> mensagem_log entry = ''Erro ao processar contrato: '' @ error_text e
      | Inr (contrato_id, committed) \<Rightarrow>
          after = committed \<and> status_execucao entry = ''Sucesso''
          \<and> mensagem_log entry = ''Contrato processado com sucesso.''" and
    db': "db' = (case rejects after (InsertLog entry) of
                None \<Rightarrow> after\<lparr>tbl_log_extrator := tbl_log_extrator after @ [entry]\<rparr>
              | Some msg \<Rightarrow> after)"
    by blast
  have "tbl_log_extrator after = tbl_log_extrator db"
  proof (cases "insert_sequence strptime rejects db contrato'")
    case (Inl e)
    with tx show ?thesis by simp
  next
    case (Inr r)
    obtain cid committed where r: "r = (cid, committed)" by (cases r)
    from insert_sequence_result(2) [OF Inr [unfolded r]] tx Inr r show ?thesis by simp
  qed
  with tx db' show ?thesis by blast
qed

theorem persist_contract_log_entry_witness:
  "\<not> isl (persist_contract no_date rejects_items
            (example_contrato JNull [example_item ''A1'']) example_db)
   \<and> snd (projr (persist_contract no_date rejects_items
            (example_contrato JNull [example_item ''A1'']) example_db))
       = example_db\<lparr>tbl_log_extrator :=
           [\<lparr>cnpj_orgao = JString ''1'', cnpj_empresa = JString ''2'',
             log_numero_contrato = JString ''123'', data_contrato = None,
             quantidade_itens = 1, status_execucao = ''Falha'',
             mensagem_log = ''Erro ao processar contrato: boom''\<rparr>]\<rparr>"
proof -
  let ?c = "example_contrato JNull [example_item ''A1'']"
  let ?r = "persist_contract no_date rejects_items ?c example_db"
  have h: "\<not> isl ?r" by code_simp
  then have eq: "?r = Inr (fst (projr ?r), snd (projr ?r))" by simp
  have c': "fst (projr ?r) = ?c" by code_simp
  have tx: "insert_sequence no_date rejects_items example_db ?c = Inl (DatabaseError ''boom'')"
    by code_simp
  from persist_contract_log_entry [OF eq] obtain entry after where
    a: "after = example_db" and
    b: "snd (projr ?r) = (case rejects_items after (InsertLog entry) of
                None \<Rightarrow> after\<lparr>tbl_log_extrator := tbl_log_extrator after @ [entry]\<rparr>
              | Some msg \<Rightarrow> after)"
    unfolding c' tx by auto
  have "rejects_items after (InsertLog entry) = None" by (simp add: rejects_items_def)
  with a b have "snd (projr ?r) = example_db\<lparr>tbl_log_extrator := tbl_log_extrator example_db @ [entry]\<rparr>"
    by simp
  moreover have "snd (projr ?r) = example_db\<lparr>tbl_log_extrator :=
           [\<lparr>cnpj_orgao = JString ''1'', cnpj_empresa = JString ''2'',
             log_numero_contrato = JString ''123'', data_contrato = None,
             quantidade_itens = 1, status_execucao = ''Falha'',
             mensagem_log = ''Erro ao processar contrato: boom''\<rparr>]\<rparr>"
    by code_simp
  ultimately show ?thesis using h by simp
qed

text \<open>
  C3 as stated fails: with a database that rejects the insert into the log, the call
  returns and the log has no row.
\<close>

theorem persist_contract_log_entry_counterexample:
  "\<not> isl (persist_contract no_date rejects_log
            (example_contrato JNull [example_item ''A1'']) example_db)
   \<and> tbl_log_extrator (snd (projr (persist_contract no_date rejects_log
            (example_contrato JNull [example_item ''A1'']) example_db))) = []
   \<and> tbl_log_extrator example_db = []"
  by code_simp

text \<open>
  C4: when \<open>persist_contract\<close> returns, the rows it has added to \<open>itens\<close> are none, or one
  row for each item that passes \<open>is_valid_catmat_catser\<close> in the state before the call,
  in order; so every row that is new belongs to an item that passes, and an item whose
  code is in neither reference table has no row. The log entry, when one is written, has
  for \<open>quantidade_itens\<close> the number of the items that pass, which is computed from the
  filtered list before the transaction starts.
\<close>

theorem persist_contract_filters_items:
  assumes "persist_contract strptime rejects contrato db = Inr (contrato', db')"
  shows "(tbl_itens db' = tbl_itens db
          \<or> (\<exists>contrato_id. tbl_itens db' = tbl_itens db @ map (Pair contrato_id)
               (filter (\<lambda>item. is_valid_catmat_catser db (catmat_catser item))
                  (itens contrato))))
     \<and> (\<forall>contrato_id item. (contrato_id, item) \<in> set (tbl_itens db')
           \<longrightarrow> (contrato_id, item) \<notin> set (tbl_itens db)
           \<longrightarrow> is_valid_catmat_catser db (catmat_catser item))
     \<and> (tbl_log_extrator db' = tbl_log_extrator db
          \<or> (\<exists>entry. tbl_log_extrator db' = tbl_log_extrator db @ [entry]
                \<and> quantidade_itens entry =
                   length (filter (\<lambda>item. is_valid_catmat_catser db (catmat_catser item))
                             (itens contrato))))"
proof -
  let ?valid = "filter (\<lambda>item. is_valid_catmat_catser db (catmat_catser item)) (itens contrato)"
  have c': "contrato' = contrato\<lparr>itens := ?valid\<rparr>"
    using assms
    by (auto simp: persist_contract_def Let_def dest!: bind_err_Inr
        split: sum.splits prod.splits)
  from persist_contract_unfold [OF assms] obtain entry after where
    tx: "case insert_sequence strptime rejects db contrato' of
        Inl e \<Rightarrow>
          after = db \<and> status_execucao entry = ''Falha''
          \<and> mensagem_log entry = ''Erro ao processar contrato: '' @ error_text e
      | Inr (contrato_id, committed) \<Rightarrow>
          after = committed \<and> status_execucao entry = ''Sucesso''
          \<and> mensagem_log entry = ''Contrato processado com sucesso.''" and
    q: "quantidade_itens entry = length (itens contrato')" and
    db': "db' = (case rejects after (InsertLog entry) of
                None \<Rightarrow> after\<lparr>tbl_log_extrator := tbl_log_extrator after @ [entry]\<rparr>
              | Some msg \<Rightarrow> after)"
    by blast
  have after: "(tbl_itens after = tbl_itens db
                 \<or> (\<exists>cid. tbl_itens after = tbl_itens db @ map (Pair cid) ?valid))
               \<and> tbl_log_extrator after = tbl_log_extrator db"
  proof (cases "insert_sequence strptime rejects db contrato'")
    case (Inl e)
    with tx show ?thesis by simp
  next
    case (Inr r)
    obtain cid committed where r: "r = (cid, committed)" by (cases r)
    from insert_sequence_result(1,2) [OF Inr [unfolded r]] tx Inr r c' show ?thesis by auto
  qed
  have itens: "tbl_itens db' = tbl_itens after"
    and log: "tbl_log_extrator db' = tbl_log_extrator after
              \<or> tbl_log_extrator db' = tbl_log_extrator after @ [entry]"
    using db' by (auto split: option.splits)
  have 1: "tbl_itens db' = tbl_itens db
          \<or> (\<exists>contrato_id. tbl_itens db' = tbl_itens db @ map (Pair contrato_id) ?valid)"
    using after itens by simp
  then have 2: "\<forall>contrato_id item. (contrato_id, item) \<in> set (tbl_itens db')
           \<longrightarrow> (contrato_id, item) \<notin> set (tbl_itens db)
           \<longrightarrow> is_valid_catmat_catser db (catmat_catser item)"
    by auto
  have 3: "tbl_log_extrator db' = tbl_log_extrator db
          \<or> (\<exists>entry. tbl_log_extrator db' = tbl_log_extrator db @ [entry]
                \<and> quantidade_itens entry = length ?valid)"
    using log after q c' by auto
  from 1 2 3 show ?thesis by blast
qed

theorem persist_contract_filters_items_witness:
  "\<not> isl (persist_contract no_date never_rejects
            (example_contrato JNull [example_item ''A1'', example_item ''zz'']) example_db)
   \<and> tbl_itens (snd (projr (persist_contract no_date never_rejects
            (example_contrato JNull [example_item ''A1'', example_item ''zz'']) example_db)))
       = [(1, example_item ''A1'')]
   \<and> map quantidade_itens (tbl_log_extrator (snd (projr (persist_contract no_date never_rejects
            (example_contrato JNull [example_item ''A1'', example_item ''zz'']) example_db))))
       = [1]"
proof -
  let ?c = "example_contrato JNull [example_item ''A1'', example_item ''zz'']"
  let ?r = "persist_contract no_date never_rejects ?c example_db"
  have h: "\<not> isl ?r" by code_simp
  then have eq: "?r = Inr (fst (projr ?r), snd (projr ?r))" by simp
  have v: "filter (\<lambda>item. is_valid_catmat_catser example_db (catmat_catser item)) (itens ?c)
           = [example_item ''A1'']"
    by code_simp
  have e: "tbl_itens example_db = []" "tbl_log_extrator example_db = []"
    by (simp_all add: example_db_def)
  have n: "tbl_itens (snd (projr ?r)) \<noteq> []" "tbl_log_extrator (snd (projr ?r)) \<noteq> []"
    by code_simp+
  have i: "fst (hd (tbl_itens (snd (projr ?r)))) = 1" by code_simp
  from persist_contract_filters_items [OF eq, unfolded v e] n
  obtain cid entry where
    a: "tbl_itens (snd (projr ?r)) = map (Pair cid) [example_item ''A1'']" and
    b: "tbl_log_extrator (snd (projr ?r)) = [entry]" "quantidade_itens entry = 1"
    by auto
  from a i have "cid = 1" by simp
  with a b h show ?thesis by simp
qed

text \<open>
  C2, at the failing input: two calls for contracts with the number 123 and the
  \<open>url_pdf_s3\<close> \<open>None\<close> (what \<open>ContractParser.parse\<close> gives a payload without that key), on a
  database that rejects nothing. The query of \<open>get_contrato_by_numero_urlpdf\<close> compares
  the column with \<open>NULL\<close>, finds no row, and the second call inserts a second row for the
  same pair, with a new \<open>id\<close>.
\<close>

theorem persist_contract_null_url_duplicates:
  "map (\<lambda>r. (fst r, row_numero_contrato (snd r), row_url_pdf_s3 (snd r)))
     (tbl_contratos
        (snd (projr (persist_contract no_date never_rejects
                       (example_contrato JNull [example_item ''S9''])
           (snd (projr (persist_contract no_date never_rejects
                          (example_contrato JNull [example_item ''A1'']) example_db)))))))
   = [(1, JString ''123'', JNull), (2, JString ''123'', JNull)]"
  by code_simp

text \<open>With a number and a URL that are not \<open>None\<close>, the second call finds the row of the
  first, creates none and takes its \<open>id\<close>.\<close>

lemma select_id_append:
  "select_id m (tbl @ [(i, r)]) =
     (case select_id m tbl of Some j \<Rightarrow> Some j | None \<Rightarrow> if m r then Some i else None)"
  by (induction tbl) (auto simp: select_id_def)

lemma insert_contrato_result:
  assumes "insert_contrato strptime rejects db contrato oid eid = Inr (cid, db')"
  shows "tbl_contratos db' = tbl_contratos db
         \<or> (get_contrato_by_numero_urlpdf db (numero_contrato contrato) (url_pdf_s3 contrato) = None
            \<and> (\<exists>row. tbl_contratos db' = tbl_contratos db @ [(cid, row)]
                 \<and> row_numero_contrato row = numero_contrato contrato
                 \<and> row_url_pdf_s3 row = url_pdf_s3 contrato))"
   and "get_contrato_by_numero_urlpdf db (numero_contrato contrato) (url_pdf_s3 contrato) = Some i
        \<Longrightarrow> cid = i \<and> db' = db"
  using assms
  by (auto simp: insert_contrato_def Let_def dest!: bind_err_Inr split: option.splits)

lemma insert_contrato_found:
  assumes "insert_contrato strptime rejects db contrato oid eid = Inr (cid, db')"
    and "numero_contrato contrato \<noteq> JNull" and "url_pdf_s3 contrato \<noteq> JNull"
  shows "get_contrato_by_numero_urlpdf db' (numero_contrato contrato) (url_pdf_s3 contrato)
         = Some cid"
proof (cases "get_contrato_by_numero_urlpdf db (numero_contrato contrato) (url_pdf_s3 contrato)")
  case None
  with insert_contrato_result(1) [OF assms(1)] assms(1) obtain row where
    "tbl_contratos db' = tbl_contratos db @ [(cid, row)]"
    "row_numero_contrato row = numero_contrato contrato"
    "row_url_pdf_s3 row = url_pdf_s3 contrato"
    by (auto simp: insert_contrato_def Let_def dest!: bind_err_Inr split: option.splits)
  with None assms(2,3) show ?thesis
    by (simp add: get_contrato_by_numero_urlpdf_def select_id_append sql_eq_def)
next
  case (Some i)
  with insert_contrato_result(2) [OF assms(1) Some] show ?thesis by simp
qed

lemma insert_sequence_contratos:
  assumes "insert_sequence strptime rejects db contrato = Inr (cid, db')"
  shows "numero_contrato contrato \<noteq> JNull \<Longrightarrow> url_pdf_s3 contrato \<noteq> JNull \<Longrightarrow>
           get_contrato_by_numero_urlpdf db' (numero_contrato contrato) (url_pdf_s3 contrato)
           = Some cid"
    and "get_contrato_by_numero_urlpdf db (numero_contrato contrato) (url_pdf_s3 contrato) = Some i
           \<Longrightarrow> cid = i \<and> tbl_contratos db' = tbl_contratos db"
proof -
  from assms obtain oid db1 eid db2 db3 db4 where
    s1: "insert_orgao_contratante rejects db (orgao_contratante contrato) = Inr (oid, db1)" and
    s2: "insert_empresa_contratada rejects db1 (empresa_contratada contrato) = Inr (eid, db2)" and
    s3: "insert_contrato strptime rejects db2 contrato oid eid = Inr (cid, db3)" and
    s4: "insert_items rejects db3 (itens contrato) cid = Inr db4" and
    s5: "db' = db4"
    by (auto simp: insert_sequence_def dest!: bind_err_Inr split: option.splits)
  from s1 have e1: "tbl_contratos db1 = tbl_contratos db"
    by (auto simp: insert_orgao_contratante_def Let_def split: option.splits)
  from s2 have e2: "tbl_contratos db2 = tbl_contratos db1"
    by (auto simp: insert_empresa_contratada_def Let_def split: option.splits)
  from insert_items_result [OF s4] have e4: "tbl_contratos db4 = tbl_contratos db3" by simp
  have g: "\<And>a b n u. tbl_contratos a = tbl_contratos b \<Longrightarrow>
             get_contrato_by_numero_urlpdf a n u = get_contrato_by_numero_urlpdf b n u"
    by (simp add: get_contrato_by_numero_urlpdf_def)
  show "numero_contrato contrato \<noteq> JNull \<Longrightarrow> url_pdf_s3 contrato \<noteq> JNull \<Longrightarrow>
           get_contrato_by_numero_urlpdf db' (numero_contrato contrato) (url_pdf_s3 contrato)
           = Some cid"
    using insert_contrato_found [OF s3] g [OF e4] s5 by simp
  show "get_contrato_by_numero_urlpdf db (numero_contrato contrato) (url_pdf_s3 contrato) = Some i
           \<Longrightarrow> cid = i \<and> tbl_contratos db' = tbl_contratos db"
    using insert_contrato_result(2) [OF s3, of i] g [of db2 db] e1 e2 e4 s5 by simp
qed

lemma persist_contract_reuses_contrato:
  assumes first: "persist_contract strptime rejects c1 db = Inr (c1', db1)"
    and committed: "insert_sequence strptime rejects db c1' = Inr (cid, dbc)"
    and key: "numero_contrato c2 = numero_contrato c1" "url_pdf_s3 c2 = url_pdf_s3 c1"
    and not_null: "numero_contrato c1 \<noteq> JNull" "url_pdf_s3 c1 \<noteq> JNull"
    and second: "persist_contract strptime2 rejects2 c2 db1 = Inr (c2', db2)"
  shows "tbl_contratos db2 = tbl_contratos db1"
    and "insert_sequence strptime2 rejects2 db1 c2' = Inr (cid2, dbc2) \<Longrightarrow> cid2 = cid"
proof -
  have c1': "numero_contrato c1' = numero_contrato c1" "url_pdf_s3 c1' = url_pdf_s3 c1"
    using persist_contract_result [OF first] by simp_all
  have c2': "numero_contrato c2' = numero_contrato c1" "url_pdf_s3 c2' = url_pdf_s3 c1"
    using persist_contract_result [OF second] key by simp_all
  have g: "\<And>a b n u. tbl_contratos a = tbl_contratos b \<Longrightarrow>
             get_contrato_by_numero_urlpdf a n u = get_contrato_by_numero_urlpdf b n u"
    by (simp add: get_contrato_by_numero_urlpdf_def)
  from persist_contract_unfold [OF first] committed
  have "tbl_contratos db1 = tbl_contratos dbc"
    by (auto split: option.splits)
  from g [OF this] insert_sequence_contratos(1) [OF committed] c1' not_null
  have found: "get_contrato_by_numero_urlpdf db1 (numero_contrato c2') (url_pdf_s3 c2') = Some cid"
    using c2' by simp
  from persist_contract_unfold [OF second] obtain after where
    after: "case insert_sequence strptime2 rejects2 db1 c2' of
              Inl e \<Rightarrow> after = db1 | Inr (i, committed2) \<Rightarrow> after = committed2"
    and db2: "tbl_contratos db2 = tbl_contratos after"
    by (auto split: option.splits sum.splits)
  show "tbl_contratos db2 = tbl_contratos db1"
  proof (cases "insert_sequence strptime2 rejects2 db1 c2'")
    case (Inl e)
    with after db2 show ?thesis by simp
  next
    case (Inr r)
    obtain i committed2 where r: "r = (i, committed2)" by (cases r)
    from insert_sequence_contratos(2) [OF Inr [unfolded r] found] after Inr r db2
    show ?thesis by simp
  qed
  show "insert_sequence strptime2 rejects2 db1 c2' = Inr (cid2, dbc2) \<Longrightarrow> cid2 = cid"
    using insert_sequence_contratos(2) [OF _ found] by blast
qed

section \<open>Properties of ContractParser\<close>













text \<open>An \<open>itens\<close> that is \<open>null\<close> raises too: unlike the two substructures, it has no
  \<open>or\<close> that replaces a false value.\<close>

lemma parse_null_itens_raises:
  "parse json_loads (''{'' @ [DQ] @ ''itens'' @ [DQ] @ '': null}'')
     = Inl (TypeError ([SQ] @ ''NoneType'' @ [SQ] @ '' object is not iterable''))"
  by code_simp


section \<open>Properties of the recovery of the reply\<close>

text \<open>The cleaning never raises: a text that ends with a fence has a last fence.\<close>

lemma rfind_from_hit: "drop n s = sub \<Longrightarrow> rfind_from n s sub = Some n"
  by (cases n) (auto simp: startswith_def)

lemma rindex_endswith: "endswith s sub \<Longrightarrow> rindex s sub = Some (length s - length sub)"
  by (simp add: rindex_def endswith_def rfind_from_hit)

lemma strip_fences_total: "\<exists>c. strip_fences raw = Some c"
  by (simp add: strip_fences_def Let_def rindex_endswith)

lemma rstrip_prefix: "\<exists>w. t = rstrip t @ w"
proof -
  have "rev (takeWhile is_space (rev t) @ dropWhile is_space (rev t)) = t"
    by (simp only: takeWhile_dropWhile_id rev_rev_ident)
  then have "t = rstrip t @ rev (takeWhile is_space (rev t))"
    by (simp only: rev_append rstrip_def)
  then show ?thesis ..
qed

lemma strip_hd: "strip s \<noteq> [] \<Longrightarrow> \<not> is_space (hd (strip s))"
proof -
  assume ne: "strip s \<noteq> []"
  obtain w where w: "lstrip s = strip s @ w"
    using rstrip_prefix [of "lstrip s"] by (auto simp: strip_def)
  with ne have "hd (strip s) = hd (lstrip s)" by (metis hd_append2)
  moreover from w ne have "lstrip s \<noteq> []" by auto
  then have "\<not> is_space (hd (lstrip s))"
    unfolding lstrip_def by (rule hd_dropWhile)
  ultimately show ?thesis by simp
qed

lemma strip_not_isspace: "\<not> isspace (strip s)"
proof (cases "strip s")
  case Nil
  then show ?thesis by (simp add: isspace_def)
next
  case (Cons c cs)
  with strip_hd [of s] show ?thesis by (simp add: isspace_def)
qed

lemma strip_fences_stripped: "strip_fences raw = Some c \<Longrightarrow> \<exists>t. c = strip t"
  by (auto simp: strip_fences_def Let_def rindex_endswith split: if_splits)

lemma strip_Nil [simp]: "strip [] = []"
  by (simp add: strip_def lstrip_def rstrip_def)

lemma strip_fences_nonempty:
  assumes "strip_fences raw = Some c" and "c \<noteq> []"
  shows "raw \<noteq> []" and "strip raw \<noteq> []"
proof -
  show "strip raw \<noteq> []"
  proof
    assume "strip raw = []"
    then have "strip_fences raw = Some []"
      by (simp add: strip_fences_def startswith_def endswith_def)
    with assms show False by simp
  qed
  then show "raw \<noteq> []" by auto
qed

lemma scan_suffixes_none:
  "(\<forall>i<length s. s ! i = CHR ''{'' \<longrightarrow> isl (loads (drop i s))) \<Longrightarrow>
     scan_suffixes loads fn s = None"
proof (induction s)
  case Nil
  then show ?case by simp
next
  case (Cons c cs)
  have "\<forall>i<length cs. cs ! i = CHR ''{'' \<longrightarrow> isl (loads (drop i cs))"
  proof (intro allI impI)
    fix i assume "i < length cs" "cs ! i = CHR ''{''"
    with Cons.prems [rule_format, of "Suc i"] show "isl (loads (drop i cs))" by simp
  qed
  then have "scan_suffixes loads fn cs = None" by (rule Cons.IH)
  moreover have "c = CHR ''{'' \<longrightarrow> isl (loads (c # cs))"
    using Cons.prems [rule_format, of 0] by simp
  ultimately show ?case by (auto split: sum.splits)
qed

lemma scan_then_full_fail:
  assumes "\<forall>i<length cleaned_output. cleaned_output ! i = CHR ''{''
             \<longrightarrow> isl (loads (drop i cleaned_output))"
    and "loads cleaned_output = Inl e"
  shows "scan_then_full loads fn cleaned_output =
     (if e = JSONDecodeError then Some (fallback_json cleaned_output fn) else None)"
  using scan_suffixes_none [OF assms(1), of fn] assms(2)
  by (simp add: scan_then_full_def)

lemma fallback_when_all_fail:
  assumes cleaned: "strip_fences raw_output = Some cleaned_output"
    and nonempty: "cleaned_output \<noteq> []"
    and span: "case search_braces cleaned_output of
                 None \<Rightarrow> True | Some json_content \<Rightarrow> isl (loads (strip json_content))"
    and suffixes: "\<forall>i<length cleaned_output. cleaned_output ! i = CHR ''{''
                     \<longrightarrow> isl (loads (drop i cleaned_output))"
    and full: "isl (loads cleaned_output)"
  shows "analyze_with_gemini loads raw_output pdf_path =
     (if (case search_braces cleaned_output of
            None \<Rightarrow> True
          | Some json_content \<Rightarrow> loads (strip json_content) = Inl JSONDecodeError)
         \<and> loads cleaned_output = Inl JSONDecodeError
      then Some (JObject
       [(''status_extracao'', JString ''Falha''),
        (''mensagem'',
           JString (''N'' @ [CHR 0xE3] @ ''o foi poss'' @ [CHR 0xED]
                    @ ''vel extrair dados estruturados'')),
        (''resposta_modelo'',
           JString (take 1000 cleaned_output
                    @ (if length cleaned_output > 1000 then ''...'' else []))),
        (''anexo_contrato'',
           JString (''s3://compras-ia-np/Contratos/'' @ basename pdf_path))])
      else None)"
proof -
  from strip_fences_stripped [OF cleaned] strip_not_isspace
  have sp: "\<not> isspace cleaned_output" by auto
  note ne = strip_fences_nonempty [OF cleaned nonempty]
  from full obtain e where e: "loads cleaned_output = Inl e"
    by (cases "loads cleaned_output") auto
  note rest = scan_then_full_fail [OF suffixes e, of "basename pdf_path"]
  have a: "analyze_with_gemini loads raw_output pdf_path =
     (case search_braces cleaned_output of
        None \<Rightarrow> scan_then_full loads (basename pdf_path) cleaned_output
      | Some json_content \<Rightarrow>
          (case loads (strip json_content) of
             Inr parsed_json \<Rightarrow> fix_anexo (basename pdf_path) parsed_json
           | Inl e \<Rightarrow>
               if e = JSONDecodeError
               then scan_then_full loads (basename pdf_path) cleaned_output
               else None))"
    unfolding analyze_with_gemini_def Let_def
    by (simp only: ne cleaned nonempty sp option.case if_False simp_thms)
  show ?thesis
  proof (cases "search_braces cleaned_output")
    case None
    with a rest e show ?thesis by (simp add: fallback_json_def)
  next
    case (Some json_content)
    with span obtain e' where e': "loads (strip json_content) = Inl e'"
      by (cases "loads (strip json_content)") auto
    with a rest e Some show ?thesis by (simp add: fallback_json_def)
  qed
qed

lemma search_braces_no_brace: "CHR ''{'' \<notin> set s \<Longrightarrow> search_braces s = None"
proof -
  assume "CHR ''{'' \<notin> set s"
  then have dw: "dropWhile (\<lambda>c. c \<noteq> CHR ''{'') s = []"
    by (auto simp: dropWhile_eq_Nil_conv)
  show ?thesis unfolding search_braces_def Let_def dw by simp
qed


text \<open>
  C5, as the code has it: when the cleaned text is not empty and every parse strategy
  fails on it (the decoder raises on the span from the first opening brace to the last
  closing brace, on the suffix at each opening brace, and on the whole text),
  \<open>analyze_with_gemini\<close> does not raise. When the parse of the span, if there is one,
  and the parse of the whole text both fail with \<open>JSONDecodeError\<close>, it returns the
  fallback object: \<open>status_extracao\<close> is Falha, \<open>resposta_modelo\<close> is the first 1000
  characters of the cleaned text, followed by three dots when the text is longer than
  that, and \<open>anexo_contrato\<close> is the URL computed from the file name. When one of the
  two fails with another exception, no handler but the outer one catches it, and the
  function returns \<open>None\<close>, with no fallback object.
\<close>

theorem analyze_with_gemini_fallback:
  assumes cleaned: "strip_fences raw_output = Some cleaned_output"
    and nonempty: "cleaned_output \<noteq> []"
    and span: "case search_braces cleaned_output of
                 None \<Rightarrow> True | Some json_content \<Rightarrow> isl (loads (strip json_content))"
    and suffixes: "\<forall>i<length cleaned_output. cleaned_output ! i = CHR ''{''
                     \<longrightarrow> isl (loads (drop i cleaned_output))"
    and full: "isl (loads cleaned_output)"
  shows "analyze_with_gemini loads raw_output pdf_path =
     (if (case search_braces cleaned_output of
            None \<Rightarrow> True
          | Some json_content \<Rightarrow> loads (strip json_content) = Inl JSONDecodeError)
         \<and> loads cleaned_output = Inl JSONDecodeError
      then Some (JObject
       [(''status_extracao'', JString ''Falha''),
        (''mensagem'',
           JString (''N'' @ [CHR 0xE3] @ ''o foi poss'' @ [CHR 0xED]
                    @ ''vel extrair dados estruturados'')),
        (''resposta_modelo'',
           JString (take 1000 cleaned_output
                    @ (if length cleaned_output > 1000 then ''...'' else []))),
        (''anexo_contrato'',
           JString (''s3://compras-ia-np/Contratos/'' @ basename pdf_path))])
      else None)"
  using assms by (rule fallback_when_all_fail)


theorem analyze_with_gemini_fallback_witness:
  "analyze_with_gemini json_loads ''{oops'' ''/tmp/my doc.pdf'' =
     Some (JObject
       [(''status_extracao'', JString ''Falha''),
        (''mensagem'',
           JString (''N'' @ [CHR 0xE3] @ ''o foi poss'' @ [CHR 0xED]
                    @ ''vel extrair dados estruturados'')),
        (''resposta_modelo'', JString ''{oops''),
        (''anexo_contrato'', JString ''s3://compras-ia-np/Contratos/my doc.pdf'')])"
proof -
  have a: "strip_fences ''{oops'' = Some ''{oops''" by code_simp
  have b: "''{oops'' \<noteq> []" by simp
  have s: "search_braces ''{oops'' = None" by code_simp
  then have c: "case search_braces ''{oops'' of
             None \<Rightarrow> True | Some json_content \<Rightarrow> isl (json_loads (strip json_content))"
    by simp
  have l: "json_loads ''{oops'' = Inl JSONDecodeError" by code_simp
  then have f: "isl (json_loads ''{oops'')" by simp
  have d: "\<forall>i<length ''{oops''. ''{oops'' ! i = CHR ''{''
             \<longrightarrow> isl (json_loads (drop i ''{oops''))"
    using f by (simp add: All_less_Suc2)
  have e: "basename ''/tmp/my doc.pdf'' = ''my doc.pdf''" by code_simp
  from analyze_with_gemini_fallback [OF a b c d f, of "''/tmp/my doc.pdf''"]
  show ?thesis by (simp add: e s l)
qed

text \<open>
  C5 as stated fails on a text of more than 1000 characters: the payload is not the
  first 1000 characters, it has three more.
\<close>

theorem analyze_with_gemini_fallback_counterexample:
  "strip_fences long_text = Some long_text
   \<and> json_loads long_text = Inl JSONDecodeError
   \<and> analyze_with_gemini json_loads long_text ''doc.pdf'' =
       Some (JObject
         [(''status_extracao'', JString ''Falha''),
          (''mensagem'',
             JString (''N'' @ [CHR 0xE3] @ ''o foi poss'' @ [CHR 0xED]
                      @ ''vel extrair dados estruturados'')),
          (''resposta_modelo'', JString (take 1000 long_text @ ''...'')),
          (''anexo_contrato'', JString ''s3://compras-ia-np/Contratos/doc.pdf'')])
   \<and> take 1000 long_text @ ''...'' \<noteq> take 1000 long_text"
proof -
  have a: "strip_fences long_text = Some long_text" by code_simp
  have l: "json_loads long_text = Inl JSONDecodeError" by code_simp
  then have f: "isl (json_loads long_text)" by simp
  have len: "length long_text = 1001" by (simp add: long_text_def)
  then have ne: "long_text \<noteq> []" by auto
  have nb: "CHR ''{'' \<notin> set long_text" by (simp add: long_text_def)
  then have s: "search_braces long_text = None" by (rule search_braces_no_brace)
  then have c: "case search_braces long_text of
             None \<Rightarrow> True | Some json_content \<Rightarrow> isl (json_loads (strip json_content))"
    by simp
  from nb have d: "\<forall>i<length long_text. long_text ! i = CHR ''{''
             \<longrightarrow> isl (json_loads (drop i long_text))"
    by (metis nth_mem)
  have e: "basename ''doc.pdf'' = ''doc.pdf''" by code_simp
  have "analyze_with_gemini json_loads long_text ''doc.pdf'' =
       Some (JObject
         [(''status_extracao'', JString ''Falha''),
          (''mensagem'',
             JString (''N'' @ [CHR 0xE3] @ ''o foi poss'' @ [CHR 0xED]
                      @ ''vel extrair dados estruturados'')),
          (''resposta_modelo'', JString (take 1000 long_text @ ''...'')),
          (''anexo_contrato'', JString ''s3://compras-ia-np/Contratos/doc.pdf'')])"
    using fallback_when_all_fail [OF a ne c d f, of "''doc.pdf''"]
    by (simp only: len e s l) simp
  with a l show ?thesis by simp
qed

text \<open>An exception of the decoder other than \<open>JSONDecodeError\<close> on the whole text
  leaves no fallback object: the reply is lost as \<open>None\<close>.\<close>

lemma analyze_with_gemini_other_exception:
  "analyze_with_gemini (\<lambda>s. Inl (RecursionError ''maximum recursion depth exceeded''))
     ''[[[['' ''doc.pdf'' = None"
proof -
  let ?loads = "\<lambda>s::string. (Inl (RecursionError ''maximum recursion depth exceeded'')
                                :: py_error + json)"
  have a: "strip_fences ''[[[['' = Some ''[[[[''" by code_simp
  have s: "search_braces ''[[[['' = None" by code_simp
  have "analyze_with_gemini ?loads ''[[[['' ''doc.pdf'' =
     (if (case search_braces ''[[[['' of
            None \<Rightarrow> True
          | Some json_content \<Rightarrow> ?loads (strip json_content) = Inl JSONDecodeError)
         \<and> ?loads ''[[[['' = Inl JSONDecodeError
      then Some (JObject
       [(''status_extracao'', JString ''Falha''),
        (''mensagem'',
           JString (''N'' @ [CHR 0xE3] @ ''o foi poss'' @ [CHR 0xED]
                    @ ''vel extrair dados estruturados'')),
        (''resposta_modelo'',
           JString (take 1000 ''[[[[''
                    @ (if length ''[[[['' > 1000 then ''...'' else []))),
        (''anexo_contrato'',
           JString (''s3://compras-ia-np/Contratos/'' @ basename ''doc.pdf''))])
      else None)"
    by (rule fallback_when_all_fail [OF a]) (simp_all add: s)
  then show ?thesis by simp
qed

section \<open>Properties of the attachment URL\<close>

lemma dict_get_dict_set: "dict_get (dict_set d k v) k = Some v"
  by (induction d) (auto simp: dict_get_def)

lemma fix_anexo_Some:
  "fix_anexo fn j = Some r \<Longrightarrow>
     \<exists>d. r = JObject d
       \<and> dict_get d ''anexo_contrato'' = Some (JString (''s3://compras-ia-np/Contratos/'' @ fn))"
  by (cases j) (auto simp: fix_anexo_def expected_anexo_def dict_get_dict_set split: if_splits)

lemma set_anexo_Some:
  "set_anexo fn j = Some r \<Longrightarrow>
     \<exists>d. r = JObject d
       \<and> dict_get d ''anexo_contrato'' = Some (JString (''s3://compras-ia-np/Contratos/'' @ fn))"
  by (cases j) (auto simp: set_anexo_def dict_get_dict_set)

lemma scan_suffixes_Some:
  "scan_suffixes loads fn s = Some r \<Longrightarrow>
     \<exists>d. r = JObject d
       \<and> dict_get d ''anexo_contrato'' = Some (JString (''s3://compras-ia-np/Contratos/'' @ fn))"
proof (induction s)
  case Nil
  then show ?case by simp
next
  case (Cons c cs)
  then show ?case
    by (auto split: if_splits option.splits sum.splits dest: fix_anexo_Some)
qed

lemma fallback_json_anexo:
  "\<exists>d. fallback_json cleaned fn = JObject d
       \<and> dict_get d ''anexo_contrato'' = Some (JString (''s3://compras-ia-np/Contratos/'' @ fn))"
  by (simp add: fallback_json_def dict_get_def)

lemma scan_then_full_Some:
  assumes "scan_then_full loads fn cleaned = Some r"
  shows "\<exists>d. r = JObject d
       \<and> dict_get d ''anexo_contrato'' = Some (JString (''s3://compras-ia-np/Contratos/'' @ fn))"
proof (cases "scan_suffixes loads fn cleaned")
  case (Some fixed)
  with assms have "scan_suffixes loads fn cleaned = Some r"
    by (simp add: scan_then_full_def)
  then show ?thesis by (rule scan_suffixes_Some)
next
  case None
  note n = this
  show ?thesis
  proof (cases "loads cleaned")
    case (Inr parsed_json)
    with assms n have "fix_anexo fn parsed_json = Some r" by (simp add: scan_then_full_def)
    then show ?thesis by (rule fix_anexo_Some)
  next
    case (Inl e)
    with assms n have "r = fallback_json cleaned fn"
      by (simp add: scan_then_full_def split: if_splits)
    with fallback_json_anexo [of cleaned fn] show ?thesis by simp
  qed
qed

lemma analyze_with_gemini_anexo:
  assumes "analyze_with_gemini loads raw_output pdf_path = Some r"
  shows "\<exists>d. r = JObject d
       \<and> dict_get d ''anexo_contrato''
           = Some (JString (''s3://compras-ia-np/Contratos/'' @ basename pdf_path))"
proof -
  from assms obtain cleaned where
    r: "(case search_braces cleaned of
           None \<Rightarrow> scan_then_full loads (basename pdf_path) cleaned
         | Some json_content \<Rightarrow>
             (case loads (strip json_content) of
                Inr parsed_json \<Rightarrow> fix_anexo (basename pdf_path) parsed_json
              | Inl e \<Rightarrow>
                  if e = JSONDecodeError
                  then scan_then_full loads (basename pdf_path) cleaned
                  else None)) = Some r"
    by (cases "strip_fences raw_output")
       (simp_all add: analyze_with_gemini_def Let_def split: if_splits)
  show ?thesis
  proof (cases "search_braces cleaned")
    case None
    with r have "scan_then_full loads (basename pdf_path) cleaned = Some r" by simp
    then show ?thesis by (rule scan_then_full_Some)
  next
    case (Some json_content)
    note s = this
    show ?thesis
    proof (cases "loads (strip json_content)")
      case (Inr parsed_json)
      with r s have "fix_anexo (basename pdf_path) parsed_json = Some r" by simp
      then show ?thesis by (rule fix_anexo_Some)
    next
      case (Inl e)
      with r s have "scan_then_full loads (basename pdf_path) cleaned = Some r"
        by (simp split: if_splits)
      then show ?thesis by (rule scan_then_full_Some)
    qed
  qed
qed

lemma try_repair_truncated_json_anexo:
  assumes "try_repair_truncated_json loads current_pdf_path raw_response = Some r"
  shows "\<exists>d. r = JObject d
       \<and> dict_get d ''anexo_contrato''
           = Some (JString (''s3://compras-ia-np/Contratos/''
               @ (case current_pdf_path of
                    None \<Rightarrow> ''documento.pdf''
                  | Some p \<Rightarrow> if p \<noteq> [] then basename p else ''documento.pdf'')))"
  using assms
  unfolding try_repair_truncated_json_def Let_def
  by (auto split: option.splits sum.splits if_splits dest!: set_anexo_Some)

lemma generate_sql_script_contrato:
  "filter (\<lambda>it. is_valid_catmat_catser db (catmat_catser it)) (itens contrato) \<noteq> []
   \<and> select_id (\<lambda>r. sql_eq (row_url_pdf_s3 r) (JString (script_url filename))) (tbl_contratos db)
       = None
   \<longrightarrow> snd (generate_sql_script db contrato filename)
        = contrato\<lparr>url_pdf_s3 := JString (script_url filename)\<rparr>"
  "filter (\<lambda>it. is_valid_catmat_catser db (catmat_catser it)) (itens contrato) = []
   \<or> select_id (\<lambda>r. sql_eq (row_url_pdf_s3 r) (JString (script_url filename))) (tbl_contratos db)
       \<noteq> None
   \<longrightarrow> snd (generate_sql_script db contrato filename) = contrato"
  by (auto simp: generate_sql_script_def Let_def split: option.splits)


text \<open>
  C1, as the code has it: every object that \<open>analyze_with_gemini\<close> returns (a parsed
  object or the fallback) and every object that \<open>try_repair_truncated_json\<close> returns has
  for \<open>anexo_contrato\<close> the URL \<open>s3://compras-ia-np/Contratos/<file name>\<close>, whatever the
  model's reply held; the file name is the base name of the path (and \<open>documento.pdf\<close>
  when the repair has no path). \<open>generate_sql_script\<close> sets the contract's \<open>url_pdf_s3\<close>
  (the contract has no \<open>anexo_contrato\<close>) to that URL, with \<open>.pdf\<close> added to a file name
  that lacks it, only when it goes on to build the script: on its two comment-only
  returns (no valid item, or a contract with that URL already there) it leaves the
  contract as it was given.
\<close>

theorem attachment_url_overwritten:
  "(analyze_with_gemini loads raw_output pdf_path = Some r \<longrightarrow>
      (\<exists>d. r = JObject d
         \<and> dict_get d ''anexo_contrato''
             = Some (JString (''s3://compras-ia-np/Contratos/'' @ basename pdf_path))))
   \<and> (try_repair_truncated_json loads current_pdf_path raw_response = Some r' \<longrightarrow>
        (\<exists>d. r' = JObject d
           \<and> dict_get d ''anexo_contrato''
               = Some (JString (''s3://compras-ia-np/Contratos/''
                   @ (case current_pdf_path of
                        None \<Rightarrow> ''documento.pdf''
                      | Some p \<Rightarrow> if p \<noteq> [] then basename p else ''documento.pdf'')))))
   \<and> (filter (\<lambda>it. is_valid_catmat_catser db (catmat_catser it)) (itens contrato) \<noteq> []
        \<and> select_id (\<lambda>r. sql_eq (row_url_pdf_s3 r) (JString (script_url filename)))
              (tbl_contratos db) = None
        \<longrightarrow> snd (generate_sql_script db contrato filename)
             = contrato\<lparr>url_pdf_s3 := JString (script_url filename)\<rparr>)
   \<and> (filter (\<lambda>it. is_valid_catmat_catser db (catmat_catser it)) (itens contrato) = []
        \<or> select_id (\<lambda>r. sql_eq (row_url_pdf_s3 r) (JString (script_url filename)))
              (tbl_contratos db) \<noteq> None
        \<longrightarrow> snd (generate_sql_script db contrato filename) = contrato)"
  using analyze_with_gemini_anexo [of loads raw_output pdf_path r]
    try_repair_truncated_json_anexo [of loads current_pdf_path raw_response r']
    generate_sql_script_contrato [of db contrato filename]
  by blast

theorem attachment_url_overwritten_witness:
  "analyze_with_gemini json_loads fenced_reply ''/tmp/my doc.pdf''
     = Some (JObject [(''anexo_contrato'', JString ''s3://compras-ia-np/Contratos/my doc.pdf'')])
   \<and> try_repair_truncated_json json_loads (Some ''/tmp/my doc.pdf'') truncated_reply
     = Some (JObject [(''anexo_contrato'', JString ''s3://compras-ia-np/Contratos/my doc.pdf''),
                      (''a'', JObject [(''b'', JInt 1)])])
   \<and> url_pdf_s3 (snd (generate_sql_script example_db
          (example_contrato (JString ''evil'') [example_item ''A1'']) ''my doc''))
     = JString ''s3://compras-ia-np/Contratos/my doc.pdf''
   \<and> url_pdf_s3 (snd (generate_sql_script example_db
          (example_contrato (JString ''evil'') [example_item ''zz'']) ''my doc''))
     = JString ''evil''"
proof -
  let ?c = "example_contrato (JString ''evil'') [example_item ''A1'']"
  let ?z = "example_contrato (JString ''evil'') [example_item ''zz'']"
  have a: "analyze_with_gemini json_loads fenced_reply ''/tmp/my doc.pdf''
     = Some (JObject [(''anexo_contrato'', JString ''s3://compras-ia-np/Contratos/my doc.pdf'')])"
    by code_simp
  have b: "try_repair_truncated_json json_loads (Some ''/tmp/my doc.pdf'') truncated_reply
     = Some (JObject [(''anexo_contrato'', JString ''s3://compras-ia-np/Contratos/my doc.pdf''),
                      (''a'', JObject [(''b'', JInt 1)])])"
    by code_simp
  have v: "filter (\<lambda>it. is_valid_catmat_catser example_db (catmat_catser it)) (itens ?c) \<noteq> []"
    by code_simp
  have n: "select_id (\<lambda>r. sql_eq (row_url_pdf_s3 r) (JString (script_url ''my doc'')))
             (tbl_contratos example_db) = None"
    by code_simp
  have u: "script_url ''my doc'' = ''s3://compras-ia-np/Contratos/my doc.pdf''" by code_simp
  have z: "filter (\<lambda>it. is_valid_catmat_catser example_db (catmat_catser it)) (itens ?z) = []"
    by code_simp
  from attachment_url_overwritten [of json_loads fenced_reply "''/tmp/my doc.pdf''" _
      "Some ''/tmp/my doc.pdf''" truncated_reply _ example_db ?c "''my doc''"] v n
  have "snd (generate_sql_script example_db ?c ''my doc'')
          = ?c\<lparr>url_pdf_s3 := JString (script_url ''my doc'')\<rparr>"
    by blast
  then have g: "url_pdf_s3 (snd (generate_sql_script example_db ?c ''my doc''))
     = JString ''s3://compras-ia-np/Contratos/my doc.pdf''"
    by (simp add: u)
  from attachment_url_overwritten [of json_loads fenced_reply "''/tmp/my doc.pdf''" _
      "Some ''/tmp/my doc.pdf''" truncated_reply _ example_db ?z "''my doc''"] z
  have "snd (generate_sql_script example_db ?z ''my doc'') = ?z" by blast
  then have h: "url_pdf_s3 (snd (generate_sql_script example_db ?z ''my doc'')) = JString ''evil''"
    by (simp add: example_contrato_def)
  from a b g h show ?thesis by simp
qed


text \<open>
  C1 as stated fails for \<open>generate_sql_script\<close>: given a contract with no valid item,
  it returns with the \<open>url_pdf_s3\<close> the contract came with still in place.
\<close>

theorem attachment_url_overwritten_counterexample:
  "generate_sql_script example_db
      (example_contrato (JString ''evil'') [example_item ''zz'']) ''doc.pdf''
     = (Inr (no_valid_items_comment ''doc.pdf''),
        example_contrato (JString ''evil'') [example_item ''zz''])
   \<and> url_pdf_s3 (example_contrato (JString ''evil'') [example_item ''zz'']) = JString ''evil''
   \<and> JString ''evil'' \<noteq> JString ''s3://compras-ia-np/Contratos/doc.pdf''"
  by code_simp


section \<open>Properties of try_repair_truncated_json\<close>

text \<open>
  C7, at the failing input: the reply \<open>{"a":1,"b":\<close> does not parse, has the shape of an
  object and ends with a dangling key, so the pattern of line 1449 matches it as it is.
  But the closing brace is appended first (line 1445), the pattern, anchored at the end
  of the text, no longer matches, the placeholder Parcial is not appended, the text
  \<open>{"a":1,"b":}\<close> does not parse, and the function returns \<open>None\<close>.
\<close>

theorem try_repair_dangling_key_fails:
  "strip_fences dangling_reply = Some dangling_reply
   \<and> json_loads dangling_reply = Inl JSONDecodeError
   \<and> search_json_start dangling_reply
   \<and> search_last_property dangling_reply
   \<and> \<not> search_last_property (dangling_reply @ ''}'')
   \<and> try_repair_truncated_json json_loads None dangling_reply = None"
  by code_simp

lemma match_key_Some: "match_key s = Some r \<Longrightarrow> \<exists>pre. s = pre @ CHR '':'' # r"
proof -
  assume m: "match_key s = Some r"
  let ?nq = "\<lambda>c. c \<noteq> DQ"
  from m obtain q t where qt: "dropWhile is_space s = q # t"
    by (auto simp: match_key_def split: list.splits)
  from m qt have r0: "dropWhile ?nq t \<noteq> []"
    by (auto simp: match_key_def Let_def split: if_splits)
  then obtain x u where xu: "dropWhile ?nq t = x # u" by (cases "dropWhile ?nq t") auto
  from m qt xu have w: "dropWhile is_space u = CHR '':'' # r"
    by (auto simp: match_key_def Let_def split: if_splits list.splits)
  have "s = takeWhile is_space s @ dropWhile is_space s" by simp
  also have "dropWhile is_space s = q # takeWhile ?nq t @ dropWhile ?nq t"
    using qt by simp
  also have "dropWhile ?nq t = x # takeWhile is_space u @ dropWhile is_space u"
    using xu by simp
  finally have "s = (takeWhile is_space s @ q # takeWhile ?nq t @ x # takeWhile is_space u)
                    @ CHR '':'' # r"
    using w by simp
  then show ?thesis ..
qed

lemma search_last_property_last:
  "search_last_property t \<Longrightarrow> t \<noteq> [] \<and> (last t = CHR '':'' \<or> is_space (last t))"
proof (induction t)
  case Nil
  then show ?case by simp
next
  case (Cons c cs)
  show ?case
  proof (cases "c = CHR '','' \<and> (case match_key cs of None \<Rightarrow> False
                                       | Some r \<Rightarrow> list_all is_space r)")
    case True
    then obtain r where r: "match_key cs = Some r" "list_all is_space r"
      by (auto split: option.splits)
    from match_key_Some [OF r(1)] obtain pre where cs: "cs = pre @ CHR '':'' # r" ..
    show ?thesis
    proof (cases "r = []")
      case True
      with cs show ?thesis by simp
    next
      case False
      with r(2) have "is_space (last r)" by (simp add: list_all_iff)
      with cs False show ?thesis by simp
    qed
  next
    case False
    with Cons.prems have "search_last_property cs" by (simp split: if_splits)
    from Cons.IH [OF this] show ?thesis by auto
  qed
qed

text \<open>Once closing braces have been appended, the text ends with a brace and the
  pattern of the dangling key, anchored at the end, cannot match: the placeholder is
  never appended to a text that has more opening than closing braces.\<close>

lemma placeholder_step_dead:
  assumes "count_list cleaned (CHR ''{'') > count_list cleaned (CHR ''}'')"
  shows "\<not> search_last_property
            (cleaned @ replicate (count_list cleaned (CHR ''{'') - count_list cleaned (CHR ''}''))
               (CHR ''}''))"
proof
  let ?n = "count_list cleaned (CHR ''{'') - count_list cleaned (CHR ''}'')"
  assume "search_last_property (cleaned @ replicate ?n (CHR ''}''))"
  from search_last_property_last [OF this]
  have "last (cleaned @ replicate ?n (CHR ''}'')) = CHR '':''
        \<or> is_space (last (cleaned @ replicate ?n (CHR ''}'')))"
    by simp
  moreover from assms have "?n \<noteq> 0" by simp
  then have "last (cleaned @ replicate ?n (CHR ''}'')) = CHR ''}''"
    by (cases ?n) (simp_all add: replicate_append_same [symmetric] del: replicate_Suc)
  ultimately show False by (simp add: is_space_def)
qed


section \<open>Properties of generate_sql_script\<close>









section \<open>Properties of the cleaning of code fences\<close>

text \<open>White space at the end of a text changes nothing in what the scanners of
  \<open>json_loads\<close> find, and \<open>json_loads\<close> gives the same value for a text and for the
  text stripped.\<close>

lemma space_not_char: "is_space c \<Longrightarrow> \<not> is_space d \<Longrightarrow> c \<noteq> d"
  by auto

lemma not_space_chars:
  "\<not> is_space DQ" "\<not> is_space BSL" "\<not> is_space (CHR ''u'')" "\<not> is_space (CHR ''.'')"
  "\<not> is_space (CHR ''e'')" "\<not> is_space (CHR ''E'')" "\<not> is_space (CHR ''+'')"
  "\<not> is_space (CHR ''-'')" "\<not> is_space (CHR ''{'')" "\<not> is_space (CHR ''}'')"
  "\<not> is_space (CHR ''['')" "\<not> is_space (CHR '']'')" "\<not> is_space (CHR '','')"
  "\<not> is_space (CHR '':'')" "\<not> is_space (CHR ''/'')" "\<not> is_space (CHR ''b'')"
  "\<not> is_space (CHR ''f'')" "\<not> is_space (CHR ''n'')" "\<not> is_space (CHR ''r'')"
  "\<not> is_space (CHR ''t'')" "\<not> is_space (CHR ''N'')" "\<not> is_space (CHR ''I'')"
  "\<not> is_space (CHR 0x60)" "\<not> is_space (CHR ''j'')"
  by (simp_all add: is_space_def)

lemma space_not_digit: "is_space c \<Longrightarrow> \<not> is_digit c"
  by (simp add: is_space_def is_digit_def Let_def) arith

lemma space_not_hex: "is_space c \<Longrightarrow> hex_val c = None"
  by (simp add: is_space_def hex_val_def Let_def) arith

lemma space_not_escape: "is_space c \<Longrightarrow> unescape c = None"
  using not_space_chars by (auto simp: unescape_def)

lemma space_not_structural:
  assumes "is_space c"
  shows "c \<noteq> DQ" "c \<noteq> BSL" "c \<noteq> CHR ''u''" "c \<noteq> CHR ''.''" "c \<noteq> CHR ''e''" "c \<noteq> CHR ''E''"
    "c \<noteq> CHR ''+''" "c \<noteq> CHR ''-''" "c \<noteq> CHR ''{''" "c \<noteq> CHR ''}''" "c \<noteq> CHR ''[''"
    "c \<noteq> CHR '']''" "c \<noteq> CHR '',''" "c \<noteq> CHR '':''"
    "\<not> is_digit c" "hex_val c = None" "unescape c = None"
  using assms not_space_chars space_not_digit space_not_hex space_not_escape
  by (blast intro: space_not_char)+

lemma takeWhile_snoc_not: "\<not> P c \<Longrightarrow> takeWhile P (xs @ [c]) = takeWhile P xs"
  by (induction xs) auto

lemma startswith_snoc:
  assumes "c \<notin> set p"
  shows "startswith (s @ [c]) p = startswith s p"
proof (cases "length p \<le> length s")
  case True
  then show ?thesis by (simp add: startswith_def)
next
  case False
  then have "take (length p) (s @ [c]) = s @ [c]" by simp
  moreover have "s @ [c] \<noteq> p" using assms by auto
  moreover have "length (take (length p) s) \<noteq> length p" using False by simp
  then have "take (length p) s \<noteq> p" by auto
  ultimately show ?thesis by (simp add: startswith_def)
qed

lemma fraction_part_snoc: "is_space c \<Longrightarrow> fraction_part (t @ [c]) = fraction_part t"
  by (cases t) (auto simp: fraction_part_def takeWhile_snoc_not space_not_structural)

lemma exponent_part_snoc: "is_space c \<Longrightarrow> exponent_part (t @ [c]) = exponent_part t"
proof (cases t)
  case Nil
  assume "is_space c"
  with Nil show ?thesis by (simp add: exponent_part_def space_not_structural)
next
  case (Cons e u)
  assume c: "is_space c"
  show ?thesis
  proof (cases u)
    case Nil
    with Cons c show ?thesis
      by (simp add: exponent_part_def Let_def space_not_structural)
  next
    case (Cons g w)
    with \<open>t = e # u\<close> c show ?thesis
      by (simp add: exponent_part_def Let_def space_not_structural takeWhile_snoc_not)
  qed
qed

lemma length_fraction_part: "length (fraction_part t) \<le> length t"
proof (cases t)
  case Nil
  then show ?thesis by (simp add: fraction_part_def)
next
  case (Cons p u)
  have "length (takeWhile is_digit u) \<le> length u" by (rule length_takeWhile_le)
  with Cons show ?thesis by (simp add: fraction_part_def)
qed

lemma length_exponent_part: "length (exponent_part t) \<le> length t"
proof (cases t)
  case Nil
  then show ?thesis by (simp add: exponent_part_def)
next
  case (Cons e u)
  show ?thesis
  proof (cases u)
    case Nil
    with Cons show ?thesis by (simp add: exponent_part_def Let_def)
  next
    case (Cons g w)
    have "length (takeWhile is_digit w) \<le> length w" "length (takeWhile is_digit u) \<le> length u"
      by (rule length_takeWhile_le)+
    with Cons \<open>t = e # u\<close> show ?thesis by (simp add: exponent_part_def Let_def)
  qed
qed

lemma hex4_space: "is_space c \<Longrightarrow> hex4 h1 h2 h3 c = None"
  by (simp add: hex4_def space_not_hex split: option.splits)

lemma scanstring_snoc:
  "is_space c \<Longrightarrow>
     scanstring (ds @ [c]) = map_option (\<lambda>(str, r). (str, r @ [c])) (scanstring ds)"
proof (induction ds rule: scanstring.induct)
  case 1
  then show ?case by (simp add: space_not_structural)
next
  case (2 x xs)
  note c = \<open>is_space c\<close>
  show ?case
  proof (cases "x = DQ")
    case True
    then show ?thesis by simp
  next
    case False
    note nq = this
    show ?thesis
    proof (cases "x = BSL")
      case True
      note bs = this
      show ?thesis
      proof (cases xs)
        case Nil
        with bs c show ?thesis by (simp add: space_not_structural)
      next
        case (Cons e cs1)
        note xs = this
        show ?thesis
        proof (cases "e = CHR ''u''")
          case True
          note u = this
          show ?thesis
          proof (cases cs1)
            case Nil
            with bs xs u c show ?thesis by (simp add: hex4_space)
          next
            case (Cons h1 t1)
            note l1 = this
            show ?thesis
            proof (cases t1)
              case Nil
              with bs xs u c l1 show ?thesis by (simp add: hex4_space)
            next
              case (Cons h2 t2)
              note l2 = this
              show ?thesis
              proof (cases t2)
                case Nil
                with bs xs u c l1 l2 show ?thesis by (simp add: hex4_space)
              next
                case (Cons h3 t3)
                note l3 = this
                show ?thesis
                proof (cases t3)
                  case Nil
                  with bs xs u c l1 l2 l3 show ?thesis by (simp add: hex4_space)
                next
                  case (Cons h4 cs2)
                  note l4 = this
                  show ?thesis
                  proof (cases "hex4 h1 h2 h3 h4")
                    case None
                    with bs xs u l1 l2 l3 l4 show ?thesis by simp
                  next
                    case (Some n)
                    show ?thesis
                    proof (cases "n < 256")
                      case True
                      from "2.IH"(1) [OF nq bs xs u, of h1 t1 h2 t2 h3 t3 h4 cs2 n] l1 l2 l3 l4
                        Some True c
                      have "scanstring (cs2 @ [c])
                            = map_option (\<lambda>(str, r). (str, r @ [c])) (scanstring cs2)"
                        by simp
                      with bs xs u l1 l2 l3 l4 Some True show ?thesis
                        by (cases "scanstring cs2") auto
                    next
                      case False
                      with bs xs u l1 l2 l3 l4 Some show ?thesis by simp
                    qed
                  qed
                qed
              qed
            qed
          qed
        next
          case False
          note nu = this
          show ?thesis
          proof (cases "unescape e")
            case None
            with bs xs nu show ?thesis by simp
          next
            case (Some y)
            from "2.IH"(2) [OF nq bs xs nu Some] c
            have "scanstring (cs1 @ [c])
                  = map_option (\<lambda>(str, r). (str, r @ [c])) (scanstring cs1)"
              by simp
            with bs xs nu Some show ?thesis
              by (cases "scanstring cs1") auto
          qed
        qed
      qed
    next
      case False
      note nb = this
      show ?thesis
      proof (cases "(of_char x :: nat) < 32")
        case True
        with nq nb show ?thesis by simp
      next
        case False
        from "2.IH"(3) [OF nq nb False] c
        have "scanstring (xs @ [c])
              = map_option (\<lambda>(str, r). (str, r @ [c])) (scanstring xs)"
          by simp
        with nq nb False show ?thesis
          by (cases "scanstring xs") auto
      qed
    qed
  qed
qed

lemma drop_snoc: "n \<le> length s \<Longrightarrow> drop n (s @ [c]) = drop n s @ [c]"
  by simp

lemma scan_number_snoc:
  assumes c: "is_space c" and ne: "s \<noteq> []"
  shows "scan_number (s @ [c]) = map_option (\<lambda>(v, r). (v, r @ [c])) (scan_number s)"
proof -
  define neg where "neg = startswith s ''-''"
  define s1 where "s1 = (if neg then drop 1 s else s)"
  have neg': "startswith (s @ [c]) ''-'' = neg"
    unfolding neg_def using c by (simp add: startswith_snoc space_not_structural)
  have s1': "(if neg then drop 1 (s @ [c]) else s @ [c]) = s1 @ [c]"
    using ne by (cases s) (simp_all add: s1_def)
  show ?thesis
  proof (cases s1)
    case Nil
    have "scan_number s = None"
      unfolding scan_number_def Let_def neg_def [symmetric] s1_def [symmetric] Nil by simp
    moreover have "scan_number (s @ [c]) = None"
      unfolding scan_number_def Let_def neg' s1' Nil using c
      by (simp add: space_not_structural)
    ultimately show ?thesis by simp
  next
    case (Cons d ds)
    show ?thesis
    proof (cases "is_digit d")
      case False
      have "scan_number s = None"
        unfolding scan_number_def Let_def neg_def [symmetric] s1_def [symmetric] Cons
        using False by simp
      moreover have "scan_number (s @ [c]) = None"
        unfolding scan_number_def Let_def neg' s1' Cons using False by simp
      ultimately show ?thesis by simp
    next
      case True
      define ip where "ip = (if d = CHR ''0'' then [d] else d # takeWhile is_digit ds)"
      define s2 where "s2 = drop (length ip) (d # ds)"
      define fr where "fr = fraction_part s2"
      define s3 where "s3 = drop (length fr) s2"
      define ex where "ex = exponent_part s3"
      define s4 where "s4 = drop (length ex) s3"
      have ip': "(if d = CHR ''0'' then [d] else d # takeWhile is_digit (ds @ [c])) = ip"
        using c by (simp add: ip_def takeWhile_snoc_not space_not_structural)
      have "length (takeWhile is_digit ds) \<le> length ds" by (rule length_takeWhile_le)
      then have "length ip \<le> length (d # ds)" by (simp add: ip_def)
      then have s2': "drop (length ip) (d # ds @ [c]) = s2 @ [c]"
        unfolding s2_def by (metis append_Cons drop_snoc)
      have fr': "fraction_part (s2 @ [c]) = fr"
        using c by (simp add: fr_def fraction_part_snoc)
      have s3': "drop (length fr) (s2 @ [c]) = s3 @ [c]"
        unfolding s3_def fr_def by (rule drop_snoc) (rule length_fraction_part)
      have ex': "exponent_part (s3 @ [c]) = ex"
        using c by (simp add: ex_def exponent_part_snoc)
      have s4': "drop (length ex) (s3 @ [c]) = s4 @ [c]"
        unfolding s4_def ex_def by (rule drop_snoc) (rule length_exponent_part)
      have a: "scan_number s =
                 (if fr = [] \<and> ex = []
                  then Some (JInt ((if neg then - 1 else 1) * int (nat_of_digits ip)), s4)
                  else Some (JFloat ((if neg then ''-'' else []) @ ip @ fr @ ex), s4))"
        unfolding scan_number_def Let_def neg_def [symmetric] s1_def [symmetric] Cons
        using True
        by (simp only: list.case if_False not_True_eq_False not_not ip_def [symmetric]
              s2_def [symmetric] fr_def [symmetric] s3_def [symmetric] ex_def [symmetric]
              s4_def [symmetric] if_True simp_thms)
      have b: "scan_number (s @ [c]) =
                 (if fr = [] \<and> ex = []
                  then Some (JInt ((if neg then - 1 else 1) * int (nat_of_digits ip)), s4 @ [c])
                  else Some (JFloat ((if neg then ''-'' else []) @ ip @ fr @ ex), s4 @ [c]))"
        unfolding scan_number_def Let_def neg' s1' Cons
        using True
        by (simp only: append_Cons list.case if_False not_True_eq_False not_not ip' s2' fr' s3'
              ex' s4' if_True simp_thms)
      from a b show ?thesis by simp
    qed
  qed
qed

lemma space_not_in_literals:
  assumes "is_space c"
  shows "c \<notin> set ''null''" "c \<notin> set ''true''" "c \<notin> set ''false''" "c \<notin> set ''NaN''"
    "c \<notin> set ''Infinity''" "c \<notin> set ''-Infinity''"
proof -
  have "\<not> is_space (CHR ''n'')" "\<not> is_space (CHR ''u'')" "\<not> is_space (CHR ''l'')"
    "\<not> is_space (CHR ''t'')" "\<not> is_space (CHR ''r'')" "\<not> is_space (CHR ''e'')"
    "\<not> is_space (CHR ''f'')" "\<not> is_space (CHR ''a'')" "\<not> is_space (CHR ''s'')"
    "\<not> is_space (CHR ''N'')" "\<not> is_space (CHR ''I'')" "\<not> is_space (CHR ''i'')"
    "\<not> is_space (CHR ''y'')" "\<not> is_space (CHR ''-'')"
    by (simp_all add: is_space_def)
  with assms show "c \<notin> set ''null''" "c \<notin> set ''true''" "c \<notin> set ''false''"
    "c \<notin> set ''NaN''" "c \<notin> set ''Infinity''" "c \<notin> set ''-Infinity''"
    by auto
qed

lemma scan_literal_snoc:
  assumes c: "is_space c" and ne: "s \<noteq> []"
  shows "scan_literal (s @ [c]) = map_option (\<lambda>(v, r). (v, r @ [c])) (scan_literal s)"
proof -
  have l: "startswith s ''null'' \<Longrightarrow> 4 \<le> length s" "startswith s ''true'' \<Longrightarrow> 4 \<le> length s"
    "startswith s ''false'' \<Longrightarrow> 5 \<le> length s" "startswith s ''NaN'' \<Longrightarrow> 3 \<le> length s"
    "startswith s ''Infinity'' \<Longrightarrow> 8 \<le> length s"
    "startswith s ''-Infinity'' \<Longrightarrow> 9 \<le> length s"
    using startswith_length [of s "''null''"] startswith_length [of s "''true''"]
      startswith_length [of s "''false''"] startswith_length [of s "''NaN''"]
      startswith_length [of s "''Infinity''"] startswith_length [of s "''-Infinity''"]
    by simp_all
  note sw = startswith_snoc [OF space_not_in_literals(1) [OF c]]
    startswith_snoc [OF space_not_in_literals(2) [OF c]]
    startswith_snoc [OF space_not_in_literals(3) [OF c]]
    startswith_snoc [OF space_not_in_literals(4) [OF c]]
    startswith_snoc [OF space_not_in_literals(5) [OF c]]
    startswith_snoc [OF space_not_in_literals(6) [OF c]]
  show ?thesis
    unfolding scan_literal_def sw
    using l scan_number_snoc [OF c ne]
    by auto
qed

lemma space_not_token:
  assumes c: "is_space c" and nw: "\<not> json_ws c"
  shows "tokenize (c # cs) = None"
proof -
  have n: "scan_number (c # cs) = None"
    using c by (simp add: scan_number_def startswith_def space_not_structural)
  have "scan_literal (c # cs) = None"
    using c n space_not_in_literals [OF c]
    by (auto simp: scan_literal_def startswith_def)
  with c nw show ?thesis by (simp add: space_not_structural)
qed

lemma tokenize_snoc:
  "is_space c \<Longrightarrow> tokenize (s @ [c]) = (if json_ws c then tokenize s else None)"
proof (induction s rule: tokenize.induct)
  case 1
  show ?case
  proof (cases "json_ws c")
    case True
    then show ?thesis by simp
  next
    case False
    with space_not_token [OF \<open>is_space c\<close> False, of "[]"] show ?thesis
      by (simp only: append_Nil if_False)
  qed
next
  case (2 d ds)
  note c = \<open>is_space c\<close>
  show ?case
  proof (cases "json_ws d \<or> d = CHR ''{'' \<or> d = CHR ''}'' \<or> d = CHR ''['' \<or> d = CHR '']''
                 \<or> d = CHR '','' \<or> d = CHR '':''")
    case True
    with "2.IH"(1-7) c have "tokenize (ds @ [c]) = (if json_ws c then tokenize ds else None)"
      by blast
    with True show ?thesis by auto
  next
    case False
    note plain = this
    show ?thesis
    proof (cases "d = DQ")
      case True
      show ?thesis
      proof (cases "scanstring ds")
        case None
        with True plain scanstring_snoc [OF c, of ds] show ?thesis by simp
      next
        case (Some x2)
        obtain str r where x2: "x2 = (str, r)" by (cases x2)
        from "2.IH"(8) [OF _ _ _ _ _ _ _ True Some x2 [symmetric]] plain c
        have "tokenize (r @ [c]) = (if json_ws c then tokenize r else None)" by simp
        with True plain Some x2 scanstring_snoc [OF c, of ds] show ?thesis by simp
      qed
    next
      case False
      note nq = this
      have sl: "scan_literal ((d # ds) @ [c])
                = map_option (\<lambda>(v, r). (v, r @ [c])) (scan_literal (d # ds))"
        by (rule scan_literal_snoc [OF c]) simp
      show ?thesis
      proof (cases "scan_literal (d # ds)")
        case None
        with nq plain sl show ?thesis by simp
      next
        case (Some x2)
        obtain v r where x2: "x2 = (v, r)" by (cases x2)
        from "2.IH"(9) [OF _ _ _ _ _ _ _ nq Some x2 [symmetric]] plain c
        have "tokenize (r @ [c]) = (if json_ws c then tokenize r else None)" by simp
        with nq plain Some x2 sl show ?thesis by simp
      qed
    qed
  qed
qed

lemma tokenize_lstrip: "tokenize s = Some ts \<Longrightarrow> tokenize (lstrip s) = Some ts"
proof (induction s)
  case Nil
  then show ?case by (simp add: lstrip_def)
next
  case (Cons c cs)
  show ?case
  proof (cases "is_space c")
    case True
    show ?thesis
    proof (cases "json_ws c")
      case True
      with Cons have "tokenize (lstrip cs) = Some ts" by simp
      with \<open>is_space c\<close> show ?thesis by (simp add: lstrip_def)
    next
      case False
      with True Cons.prems space_not_token show ?thesis by simp
    qed
  next
    case False
    with Cons.prems show ?thesis by (simp add: lstrip_def)
  qed
qed

lemma tokenize_rstrip: "tokenize s = Some ts \<Longrightarrow> tokenize (rstrip s) = Some ts"
proof (induction s rule: rev_induct)
  case Nil
  then show ?case by (simp add: rstrip_def)
next
  case (snoc c xs)
  show ?case
  proof (cases "is_space c")
    case True
    with snoc.prems tokenize_snoc [OF True, of xs] have "tokenize xs = Some ts"
      by (simp split: if_splits)
    then have "tokenize (rstrip xs) = Some ts" by (rule snoc.IH)
    with True show ?thesis by (simp add: rstrip_def)
  next
    case False
    with snoc.prems show ?thesis by (simp add: rstrip_def)
  qed
qed

lemma json_loads_strip: "json_loads s = Inr j \<Longrightarrow> json_loads (strip s) = Inr j"
proof -
  assume a: "json_loads s = Inr j"
  then obtain ts where ts: "tokenize s = Some ts" "parse_tokens ts = Some j"
    by (auto simp: json_loads_def split: option.splits)
  from ts(1) have "tokenize (strip s) = Some ts"
    unfolding strip_def by (intro tokenize_rstrip tokenize_lstrip)
  with ts(2) show ?thesis by (simp add: json_loads_def)
qed

lemma str_replace_absent: "\<not> str_contains s old \<Longrightarrow> str_replace s old new = s"
  by (induction s) auto

lemma strip_id:
  assumes "s \<noteq> []" and "\<not> is_space (hd s)" and "\<not> is_space (last s)"
  shows "strip s = s"
proof -
  from assms(1,2) have l: "lstrip s = s" by (cases s) (simp_all add: lstrip_def)
  from assms(1,3) have "dropWhile is_space (rev s) = rev s"
    by (cases "rev s") (simp_all add: last_rev [symmetric] hd_rev)
  then have "rstrip s = s" by (simp add: rstrip_def)
  with l show ?thesis by (simp add: strip_def)
qed

lemma json_not_tag:
  assumes "json_loads json_text = Inr j"
  shows "\<not> startswith json_text ''json''"
proof
  assume "startswith json_text ''json''"
  then obtain rest where t: "json_text = CHR ''j'' # rest"
    by (cases json_text) (auto simp: startswith_def)
  have "scan_number (CHR ''j'' # rest) = None"
    by (simp add: scan_number_def startswith_def is_digit_def)
  then have "scan_literal (CHR ''j'' # rest) = None"
    by (simp add: scan_literal_def startswith_def)
  then have "tokenize json_text = None"
    unfolding t by (simp add: json_ws_def)
  with assms show False by (simp add: json_loads_def)
qed

lemma startswith_Cons: "startswith (x # s) (y # p) = (x = y \<and> startswith s p)"
  by (simp add: startswith_def)

lemma startswith_append_other:
  "list_all (\<lambda>c. c \<notin> set p) ext \<Longrightarrow> startswith (s @ ext) p = startswith s p"
proof (induction ext arbitrary: s)
  case Nil
  then show ?case by simp
next
  case (Cons e ext)
  from Cons.prems have "startswith ((s @ [e]) @ ext) p = startswith (s @ [e]) p"
    by (intro Cons.IH) simp
  also from Cons.prems have "\<dots> = startswith s p" by (intro startswith_snoc) simp
  finally show ?case by simp
qed

lemma strip_fences_tagged:
  assumes "\<not> str_contains json_text ''```''"
  shows "strip_fences (''```json'' @ json_text @ ''```'') = Some (strip json_text)"
proof -
  let ?raw = "''```json'' @ json_text @ ''```''"
  have s: "strip ?raw = ?raw"
    by (rule strip_id) (simp_all add: is_space_def)
  have sw: "startswith ?raw ''```json''" by (simp add: startswith_def)
  have r1: "str_replace1 ?raw ''```json'' [] = json_text @ ''```''"
    by (simp add: startswith_def)
  have ew: "endswith (json_text @ ''```'') ''```''" by (simp add: endswith_def)
  have ri: "rindex (json_text @ ''```'') ''```'' = Some (length json_text)"
    using rindex_endswith [OF ew] by simp
  show ?thesis
    unfolding strip_fences_def Let_def s
    by (simp only: sw if_True r1 ew ri option.case take_append take_all diff_self_eq_0
          take_0 append_Nil2 order_refl str_replace_absent [OF assms])
qed

lemma strip_fences_untagged:
  assumes "\<not> str_contains json_text ''```''" and "\<not> startswith json_text ''json''"
  shows "strip_fences (''```'' @ json_text @ ''```'') = Some (strip json_text)"
proof -
  let ?raw = "''```'' @ json_text @ ''```''"
  have s: "strip ?raw = ?raw"
    by (rule strip_id) (simp_all add: is_space_def)
  have "startswith (json_text @ ''```'') ''json'' = startswith json_text ''json''"
    by (rule startswith_append_other) simp
  with assms(2) have sw: "\<not> startswith ?raw ''```json''"
    by (simp add: startswith_Cons)
  have ew: "endswith ?raw ''```''" by (simp add: endswith_def)
  have ri: "rindex ?raw ''```'' = Some (length (''```'' @ json_text))"
    using rindex_endswith [OF ew] by simp
  have tk: "take (length (''```'' @ json_text)) ?raw = ''```'' @ json_text" by simp
  have rp: "str_replace (''```'' @ json_text) ''```'' [] = json_text"
    using str_replace_absent [OF assms(1)] by (simp add: startswith_def)
  show ?thesis
    unfolding strip_fences_def Let_def s
    by (simp only: sw if_False ew if_True ri option.case tk rp)
qed


text \<open>
  C8, as the code has it: for a well-formed JSON text that holds no fence marker
  itself, wrapped in a leading fence, with or without the tag \<open>json\<close>, and a trailing
  fence, the cleaning of \<open>analyze_with_gemini\<close> followed by a parse gives exactly the
  value that parsing the unwrapped text gives.
\<close>

theorem fenced_json_reproduced:
  assumes "json_loads json_text = Inr j" and "\<not> str_contains json_text ''```''"
    and "tag = ''json'' \<or> tag = []"
  shows "\<exists>cleaned. strip_fences (''```'' @ tag @ json_text @ ''```'') = Some cleaned
           \<and> json_loads cleaned = Inr j"
proof -
  have "strip_fences (''```'' @ tag @ json_text @ ''```'') = Some (strip json_text)"
  proof (cases "tag = ''json''")
    case True
    with strip_fences_tagged [OF assms(2)] show ?thesis by simp
  next
    case False
    with assms(3) have "tag = []" by simp
    with strip_fences_untagged [OF assms(2) json_not_tag [OF assms(1)]] show ?thesis by simp
  qed
  with json_loads_strip [OF assms(1)] show ?thesis by simp
qed


theorem fenced_json_reproduced_witness:
  "strip_fences (''```json'' @ [NL] @ ''{'' @ [DQ] @ ''a'' @ [DQ] @ '': 1}'' @ [NL] @ ''```'')
     = Some (''{'' @ [DQ] @ ''a'' @ [DQ] @ '': 1}'')
   \<and> json_loads (''{'' @ [DQ] @ ''a'' @ [DQ] @ '': 1}'') = Inr (JObject [(''a'', JInt 1)])"
proof -
  let ?json_text = "[NL] @ ''{'' @ [DQ] @ ''a'' @ [DQ] @ '': 1}'' @ [NL]"
  have a: "json_loads ?json_text = Inr (JObject [(''a'', JInt 1)])" by code_simp
  have b: "\<not> str_contains ?json_text ''```''" by code_simp
  have c: "strip_fences (''```'' @ ''json'' @ ?json_text @ ''```'')
             = Some (''{'' @ [DQ] @ ''a'' @ [DQ] @ '': 1}'')"
    by code_simp
  from fenced_json_reproduced [OF a b, of "''json''"] obtain cleaned where
    "strip_fences (''```'' @ ''json'' @ ?json_text @ ''```'') = Some cleaned"
    "json_loads cleaned = Inr (JObject [(''a'', JInt 1)])"
    by blast
  with c have "json_loads (''{'' @ [DQ] @ ''a'' @ [DQ] @ '': 1}'') = Inr (JObject [(''a'', JInt 1)])"
    by simp
  moreover have "strip_fences (''```json'' @ [NL] @ ''{'' @ [DQ] @ ''a'' @ [DQ] @ '': 1}'' @ [NL] @ ''```'')
     = Some (''{'' @ [DQ] @ ''a'' @ [DQ] @ '': 1}'')"
    by code_simp
  ultimately show ?thesis by simp
qed


text \<open>
  C8 as stated fails for a well-formed JSON text with a fence marker inside a string:
  the cleaning removes every marker that is left, so the object \<open>{"a":"```"}\<close> comes
  back as \<open>{"a":""}\<close>.
\<close>

theorem fenced_json_reproduced_counterexample:
  "json_loads backtick_json = Inr (JObject [(''a'', JString ''```'')])
   \<and> strip_fences (''```json'' @ [NL] @ backtick_json @ [NL] @ ''```'')
       = Some (''{'' @ [DQ] @ ''a'' @ [DQ] @ '':'' @ [DQ, DQ] @ ''}'')
   \<and> json_loads (''{'' @ [DQ] @ ''a'' @ [DQ] @ '':'' @ [DQ, DQ] @ ''}'')
       = Inr (JObject [(''a'', JString [])])"
  by code_simp

end
